theory Spec2Isabelle
  imports Main "HOL-Library.AList" "HOL-Library.Multiset"
begin

section \<open>JavaScript values\<close>

text \<open>
  The payloads that reach the store are parsed JSON (\<^verbatim>\<open>response.json()\<close>) or
  values the views build themselves, so a value is \<^verbatim>\<open>undefined\<close>, \<^verbatim>\<open>null\<close>, a boolean,
  a number, a string, an array or a plain object. An object is its list of own enumerable
  properties in creation order; a well-formed object has no key twice. Numbers are only
  ever tested for truthiness here, so an integer stands for them.
\<close>

datatype jsval =
    JUndefined
  | JNull
  | JBool bool
  | JNum int
  | JStr string
  | JArr "jsval list"
  | JObj "(string \<times> jsval) list"

type_synonym jsobject = "(string \<times> jsval) list"

text \<open>\<^verbatim>\<open>ToBoolean\<close>: what \<^verbatim>\<open>x && ...\<close>, \<^verbatim>\<open>x || ...\<close> and \<^verbatim>\<open>if (x)\<close> test.\<close>

fun truthy :: "jsval \<Rightarrow> bool" where
  "truthy JUndefined = False"
| "truthy JNull = False"
| "truthy (JBool b) = b"
| "truthy (JNum n) = (n \<noteq> 0)"
| "truthy (JStr s) = (s \<noteq> [])"
| "truthy (JArr xs) = True"
| "truthy (JObj ps) = True"

text \<open>The canonical decimal numeral of an array index, as the property key it is.\<close>

definition digit_char :: "nat \<Rightarrow> char" where
  "digit_char d = ''0123456789'' ! d"

function index_key :: "nat \<Rightarrow> string" where
  "index_key n = (if n < 10 then [digit_char n] else index_key (n div 10) @ [digit_char (n mod 10)])"
  by pat_completeness auto
termination
  by (relation "measure (\<lambda>n. n)") auto

text \<open>
  The own enumerable string-keyed properties of a value, which is what an object spread
  \<^verbatim>\<open>{...x}\<close> copies: those of an object, the indexed elements of an array, the indexed
  characters of a string, and nothing for \<^verbatim>\<open>undefined\<close>, \<^verbatim>\<open>null\<close>, booleans and numbers.
\<close>

fun own_props :: "jsval \<Rightarrow> (string \<times> jsval) list" where
  "own_props (JObj ps) = ps"
| "own_props (JArr xs) = zip (map index_key [0..<length xs]) xs"
| "own_props (JStr s) = zip (map index_key [0..<length s]) (map (\<lambda>c. JStr [c]) s)"
| "own_props v = []"

text \<open>
  \<^verbatim>\<open>Object.keys(x)\<close> raises a TypeError on \<^verbatim>\<open>undefined\<close> and \<^verbatim>\<open>null\<close> (the value
  \<open>None\<close>) and lists the own enumerable keys otherwise. Every use in the views takes the
  length of the result or sorts it, so the engine's rule that integer-like keys are
  enumerated first is not modelled: keys come in creation order.
\<close>

fun Object_keys :: "jsval \<Rightarrow> string list option" where
  "Object_keys JUndefined = None"
| "Object_keys JNull = None"
| "Object_keys v = Some (map fst (own_props v))"

text \<open>
  Writing a property: an existing key keeps its place and takes the new value, a new key
  goes to the end. \<^verbatim>\<open>{...a, ...b}\<close> starts from the empty object and writes the
  properties of \<open>a\<close>, then those of \<open>b\<close>.
\<close>

definition assign_props :: "jsobject \<Rightarrow> (string \<times> jsval) list \<Rightarrow> jsobject" where
  "assign_props target ps = fold (\<lambda>(k, v). AList.update k v) ps target"

definition spread2 :: "jsval \<Rightarrow> jsval \<Rightarrow> jsobject" where
  "spread2 a b = assign_props (assign_props [] (own_props a)) (own_props b)"

definition wf_object :: "jsobject \<Rightarrow> bool" where
  "wf_object ps = distinct (map fst ps)"

section \<open>The store: AppLayout\<close>

text \<open>
  \<^verbatim>\<open>worldData\<close> as \<^verbatim>\<open>useState\<close> creates it in AppLayout.jsx. The two singleton
  sections take whatever payload is assigned to them; the five keyed sections are always
  the result of an object spread, hence objects; the two ordered sections are always the
  result of an array literal, hence arrays.
\<close>

record world_data =
  physical_world :: jsval
  culture :: jsval
  factions :: jsobject
  characters :: jsobject
  locations :: jsobject
  artifacts :: jsobject
  events :: jsobject
  interactions :: "jsval list"
  chat_history :: "jsval list"

definition initial_worldData :: world_data where
  "initial_worldData = \<lparr> physical_world = JObj [], culture = JObj [], factions = [],
     characters = [], locations = [], artifacts = [], events = [],
     interactions = [], chat_history = [] \<rparr>"

text \<open>
  The updater that \<^verbatim>\<open>handleDataGenerated\<close> hands to \<^verbatim>\<open>setWorldData\<close>
  (AppLayout.jsx, lines 150 to 201). In \<^verbatim>\<open>newData.factions || {}\<close> the left operand is an
  object, which is truthy, so the fallback is never taken; likewise for the arrays.
  An unknown \<open>dataType\<close> falls through every branch.
\<close>

definition updateWorldData :: "string \<Rightarrow> jsval \<Rightarrow> world_data \<Rightarrow> world_data" where
  "updateWorldData dataType data prevData =
    (if dataType = ''physical_world'' then prevData\<lparr>physical_world := data\<rparr>
     else if dataType = ''culture'' then prevData\<lparr>culture := data\<rparr>
     else if dataType = ''factions'' then
       prevData\<lparr>factions := spread2 (JObj (factions prevData)) data\<rparr>
     else if dataType = ''characters'' then
       prevData\<lparr>characters := spread2 (JObj (characters prevData)) data\<rparr>
     else if dataType = ''locations'' then
       prevData\<lparr>locations := spread2 (JObj (locations prevData)) data\<rparr>
     else if dataType = ''artifacts'' then
       prevData\<lparr>artifacts := spread2 (JObj (artifacts prevData)) data\<rparr>
     else if dataType = ''events'' then
       prevData\<lparr>events := spread2 (JObj (events prevData)) data\<rparr>
     else if dataType = ''interaction_result'' then
       prevData\<lparr>interactions := data # interactions prevData\<rparr>
     else if dataType = ''chat_message'' then
       prevData\<lparr>chat_history := chat_history prevData @ [data]\<rparr>
     else prevData)"

text \<open>
  The state AppLayout owns besides the provider list and the navigation: the world
  model, the capability state and the layout's error line.
\<close>

record app_state =
  worldData :: world_data
  isLLMInitialized :: bool
  initializedProviderKey :: string
  layoutError :: string

definition initial_state :: app_state where
  "initial_state = \<lparr> worldData = initial_worldData, isLLMInitialized = False,
     initializedProviderKey = [], layoutError = [] \<rparr>"

definition handleLLMInitialized :: "string \<Rightarrow> app_state \<Rightarrow> app_state" where
  "handleLLMInitialized providerKey st =
     st\<lparr>isLLMInitialized := True, initializedProviderKey := providerKey, layoutError := []\<rparr>"

definition handleDataGenerated :: "string \<Rightarrow> jsval \<Rightarrow> app_state \<Rightarrow> app_state" where
  "handleDataGenerated dataType data st =
     st\<lparr>worldData := updateWorldData dataType data (worldData st), layoutError := []\<rparr>"

text \<open>
  Reading a section by its name, \<^verbatim>\<open>worldData[name]\<close>, and the section each
  \<open>dataType\<close> of \<^verbatim>\<open>handleDataGenerated\<close> writes.
\<close>

definition singleton_sections :: "string list" where
  "singleton_sections = [''physical_world'', ''culture'']"

definition keyed_sections :: "string list" where
  "keyed_sections = [''factions'', ''characters'', ''locations'', ''artifacts'', ''events'']"

definition ordered_sections :: "string list" where
  "ordered_sections = [''interactions'', ''chat_history'']"

definition keyed_section :: "string \<Rightarrow> world_data \<Rightarrow> jsobject" where
  "keyed_section name w =
    (if name = ''factions'' then factions w
     else if name = ''characters'' then characters w
     else if name = ''locations'' then locations w
     else if name = ''artifacts'' then artifacts w
     else if name = ''events'' then events w
     else [])"

definition get_section :: "string \<Rightarrow> world_data \<Rightarrow> jsval" where
  "get_section name w =
    (if name = ''physical_world'' then physical_world w
     else if name = ''culture'' then culture w
     else if name = ''factions'' then JObj (factions w)
     else if name = ''characters'' then JObj (characters w)
     else if name = ''locations'' then JObj (locations w)
     else if name = ''artifacts'' then JObj (artifacts w)
     else if name = ''events'' then JObj (events w)
     else if name = ''interactions'' then JArr (interactions w)
     else if name = ''chat_history'' then JArr (chat_history w)
     else JUndefined)"

definition target_section :: "string \<Rightarrow> string option" where
  "target_section dataType =
    (if dataType \<in> set singleton_sections \<or> dataType \<in> set keyed_sections then Some dataType
     else if dataType = ''interaction_result'' then Some ''interactions''
     else if dataType = ''chat_message'' then Some ''chat_history''
     else None)"

text \<open>The values of \<open>dataType\<close> that some branch of the updater tests for.\<close>

definition dataTypes :: "string list" where
  "dataTypes = [''physical_world'', ''culture'', ''factions'', ''characters'', ''locations'',
     ''artifacts'', ''events'', ''interaction_result'', ''chat_message'']"

text \<open>A run of completed generations, applied to the store in the order they resolve.\<close>

definition apply_merges :: "(string \<times> jsval) list \<Rightarrow> app_state \<Rightarrow> app_state" where
  "apply_merges calls st = fold (\<lambda>(dataType, data). handleDataGenerated dataType data) calls st"

definition calls_for :: "string \<Rightarrow> (string \<times> jsval) list \<Rightarrow> (string \<times> jsval) list" where
  "calls_for name calls = filter (\<lambda>(dataType, data). target_section dataType = Some name) calls"

text \<open>
  How AppLayout hands the store to a view: \<^verbatim>\<open>onDataGenerated={(data) =>
  handleDataGenerated('characters', data)}\<close>. The arrow function has one parameter, so it
  reads the first argument of a call and ignores the others; a missing argument is
  \<^verbatim>\<open>undefined\<close>. A view may also be rendered without the callback (\<open>None\<close>), which is what
  its \<^verbatim>\<open>if (onDataGenerated)\<close> tests.
\<close>

definition arg0 :: "jsval list \<Rightarrow> jsval" where
  "arg0 args = (case args of [] \<Rightarrow> JUndefined | a # rest \<Rightarrow> a)"

definition AppLayout_onDataGenerated ::
  "string \<Rightarrow> (jsval list \<Rightarrow> app_state \<Rightarrow> app_state) option" where
  "AppLayout_onDataGenerated dataType = Some (\<lambda>args. handleDataGenerated dataType (arg0 args))"

definition call_back :: "(jsval list \<Rightarrow> 'st \<Rightarrow> 'st) option \<Rightarrow> jsval list \<Rightarrow> 'st \<Rightarrow> 'st" where
  "call_back cb args st = (case cb of None \<Rightarrow> st | Some f \<Rightarrow> f args st)"

section \<open>Readiness: the prerequisite checks of the views\<close>

text \<open>
  Every view tests a section with \<^verbatim>\<open>worldData?.x && Object.keys(worldData.x).length > 0\<close>.
  The right operand is evaluated only for a truthy \<open>x\<close>, where \<^verbatim>\<open>Object.keys\<close> does
  not raise; the branch \<open>None\<close> below is therefore never reached.
\<close>

definition generated :: "jsval \<Rightarrow> bool" where
  "generated x =
    (truthy x \<and> (case Object_keys x of None \<Rightarrow> False | Some ks \<Rightarrow> 0 < length ks))"

definition CultureTab_worldSeedGenerated :: "world_data \<Rightarrow> bool" where
  "CultureTab_worldSeedGenerated w = generated (physical_world w)"

definition FactionsTab_prerequisitesMet :: "world_data \<Rightarrow> bool" where
  "FactionsTab_prerequisitesMet w = (generated (physical_world w) \<and> generated (culture w))"

definition CharactersTab_prerequisitesMet :: "world_data \<Rightarrow> bool" where
  "CharactersTab_prerequisitesMet w = generated (culture w)"

definition LocationsTab_prerequisitesMet :: "world_data \<Rightarrow> bool" where
  "LocationsTab_prerequisitesMet w = (generated (physical_world w) \<and> generated (culture w))"

definition ArtifactsTab_prerequisitesMet :: "world_data \<Rightarrow> bool" where
  "ArtifactsTab_prerequisitesMet w =
    (generated (physical_world w) \<and> generated (culture w) \<and> generated (JObj (locations w)))"

definition EventsTab_prerequisitesMet :: "world_data \<Rightarrow> bool" where
  "EventsTab_prerequisitesMet w =
    (generated (physical_world w) \<and> generated (culture w) \<and> generated (JObj (factions w))
     \<and> generated (JObj (characters w)) \<and> generated (JObj (locations w)))"

definition SimulateTab_prerequisitesMet :: "world_data \<Rightarrow> bool" where
  "SimulateTab_prerequisitesMet w =
    (generated (physical_world w) \<and> generated (culture w) \<and> generated (JObj (factions w))
     \<and> generated (JObj (characters w)) \<and> generated (JObj (locations w)))"

definition ChatTab_prerequisitesMet :: "world_data \<Rightarrow> bool" where
  "ChatTab_prerequisitesMet w = (generated (physical_world w) \<and> generated (culture w))"

text \<open>
  Whether a section holds anything: the views' test above for the singleton and keyed
  sections, \<^verbatim>\<open>.length > 0\<close> for the two histories.
\<close>

definition section_populated :: "string \<Rightarrow> world_data \<Rightarrow> bool" where
  "section_populated name w =
    (if name = ''interactions'' then 0 < length (interactions w)
     else if name = ''chat_history'' then 0 < length (chat_history w)
     else generated (get_section name w))"

section \<open>The name index: the entity options of the views\<close>

text \<open>
  CharactersTab, LocationsTab, ArtifactsTab, EventsTab and SimulateTab carry the same
  effect. It pushes the keys of the five keyed sections onto \<^verbatim>\<open>names\<close> (each guard
  \<^verbatim>\<open>if (worldData?.factions)\<close> holds, the section being an object), sorts with
  \<^verbatim>\<open>(a, b) => a.localeCompare(b)\<close>, puts \<^verbatim>\<open>'None'\<close> in front and resets a selection
  that is no longer listed.

  \<^verbatim>\<open>localeCompare\<close> is the engine's collation and is a parameter here.
  \<^verbatim>\<open>Array.prototype.sort\<close> is stable, and for a consistent comparator the stable
  sort of a list is unique; insertion from the right computes it.
\<close>

definition names :: "world_data \<Rightarrow> string list" where
  "names w = map fst (factions w) @ map fst (characters w) @ map fst (locations w)
     @ map fst (artifacts w) @ map fst (events w)"

fun insert_by :: "('a \<Rightarrow> 'a \<Rightarrow> int) \<Rightarrow> 'a \<Rightarrow> 'a list \<Rightarrow> 'a list" where
  "insert_by cmp x [] = [x]"
| "insert_by cmp x (y # ys) = (if cmp x y \<le> 0 then x # y # ys else y # insert_by cmp x ys)"

definition js_sort :: "('a \<Rightarrow> 'a \<Rightarrow> int) \<Rightarrow> 'a list \<Rightarrow> 'a list" where
  "js_sort cmp xs = foldr (insert_by cmp) xs []"

definition consistent_comparator :: "('a \<Rightarrow> 'a \<Rightarrow> int) \<Rightarrow> bool" where
  "consistent_comparator cmp =
    ((\<forall>a b. (cmp a b < 0) = (0 < cmp b a))
     \<and> (\<forall>a b c. cmp a b \<le> 0 \<and> cmp b c \<le> 0 \<longrightarrow> cmp a c \<le> 0))"

definition sortedNames :: "(string \<Rightarrow> string \<Rightarrow> int) \<Rightarrow> world_data \<Rightarrow> string list" where
  "sortedNames localeCompare w = js_sort localeCompare (names w)"

definition entityOptions :: "(string \<Rightarrow> string \<Rightarrow> int) \<Rightarrow> world_data \<Rightarrow> string list" where
  "entityOptions localeCompare w = ''None'' # sortedNames localeCompare w"

definition reset_selection ::
  "(string \<Rightarrow> string \<Rightarrow> int) \<Rightarrow> world_data \<Rightarrow> string \<Rightarrow> string" where
  "reset_selection localeCompare w entitySelection =
    (if entitySelection \<noteq> ''None'' \<and> entitySelection \<notin> set (sortedNames localeCompare w)
     then ''None'' else entitySelection)"

text \<open>
  One consistent comparator, for evaluating examples: strings compared character by
  character on their codes, a proper prefix first.
\<close>

fun code_compare :: "string \<Rightarrow> string \<Rightarrow> int" where
  "code_compare [] [] = 0"
| "code_compare [] (y # ys) = - 1"
| "code_compare (x # xs) [] = 1"
| "code_compare (x # xs) (y # ys) =
    (if (of_char x :: nat) < of_char y then - 1
     else if (of_char y :: nat) < of_char x then 1
     else code_compare xs ys)"

section \<open>The producer views\<close>

text \<open>
  Every view receives the props \<^verbatim>\<open>worldData\<close>, \<^verbatim>\<open>isLLMInitialized\<close> (here
  \<open>isInitialized\<close>) and \<^verbatim>\<open>onDataGenerated\<close>.
  A submit handler validates, calls the generation capability and hands the result to the
  store through its callback. The capability is a parameter: a function from the request
  to the call's outcome, a resolved value or a rejection carrying the error's message.
  The messages a view shows are presentation; the model keeps which one was set.
  What a handler returns here is what it leaves behind: the store, the view's error line
  (\<open>None\<close> is the empty string) and the requests it sent. The loading flag, which
  every path that sets it leaves false, and the clearing of an input field after a submit
  are not modelled. Strings are ASCII text.
\<close>

text \<open>
  A rejection carries the message of the \<^verbatim>\<open>Error\<close> thrown, as every function of
  apiService.js throws \<^verbatim>\<open>new Error(message)\<close>.
\<close>

datatype outcome = Resolved jsval | Rejected string

datatype view_error =
    NotInitialized
  | NotInitializedReported
  | PrerequisitesMissing
  | MissingInput
  | SelectTwoEntities
  | SelectDifferentEntities
  | UnexpectedResponse
  | GenerationFailed string

record 'st submit_result =
  store :: 'st
  errorMessage :: "view_error option"
  requests :: "jsval list"

definition refused :: "'st \<Rightarrow> view_error \<Rightarrow> 'st submit_result" where
  "refused st e = \<lparr> store = st, errorMessage = Some e, requests = [] \<rparr>"

text \<open>\<^verbatim>\<open>error.message || fallback\<close>: the empty message is falsy.\<close>

definition message_or :: "string \<Rightarrow> string \<Rightarrow> string" where
  "message_or msg fallback = (if msg = [] then fallback else msg)"

text \<open>
  \<^verbatim>\<open>String.prototype.trim\<close> on ASCII text (space, tab, line feed, vertical tab, form
  feed, carriage return), and \<^verbatim>\<open>!s.trim()\<close>.
\<close>

definition is_space :: "char \<Rightarrow> bool" where
  "is_space c = (c = CHR '' '' \<or> c = CHR 0x09 \<or> c = CHR 0x0A \<or> c = CHR 0x0B
     \<or> c = CHR 0x0C \<or> c = CHR 0x0D)"

definition js_trim :: "string \<Rightarrow> string" where
  "js_trim s = rev (dropWhile is_space (rev (dropWhile is_space s)))"

definition blank :: "string \<Rightarrow> bool" where
  "blank s = (js_trim s = [])"

text \<open>\<^verbatim>\<open>s.includes(t)\<close>: \<open>t\<close> occurs in \<open>s\<close>.\<close>

fun includes_str :: "string \<Rightarrow> string \<Rightarrow> bool" where
  "includes_str [] t = (t = [])"
| "includes_str (c # cs) t = (take (length t) (c # cs) = t \<or> includes_str cs t)"

text \<open>
  Reading a property that is neither an index nor built in, as in
  \<^verbatim>\<open>result?.response\<close>: the property of an object, \<^verbatim>\<open>undefined\<close> on anything else.
\<close>

fun get_prop :: "jsval \<Rightarrow> string \<Rightarrow> jsval" where
  "get_prop (JObj ps) k = (case map_of ps k of None \<Rightarrow> JUndefined | Some v \<Rightarrow> v)"
| "get_prop v k = JUndefined"

text \<open>The associated-entity field of a request: the selection, or \<^verbatim>\<open>null\<close> for \<^verbatim>\<open>'None'\<close>.\<close>

definition associated :: "string \<Rightarrow> jsval" where
  "associated entitySelection =
    (if entitySelection \<noteq> ''None'' then JStr entitySelection else JNull)"

subsection \<open>WorldSeedTab\<close>

definition WorldSeedTab_promptData :: "string \<Rightarrow> jsval" where
  "WorldSeedTab_promptData prompt = JObj [(''prompt'', JStr prompt)]"

definition WorldSeedTab_handleSubmit ::
  "(jsval list \<Rightarrow> 'st \<Rightarrow> 'st) option \<Rightarrow> bool \<Rightarrow> string \<Rightarrow> (jsval \<Rightarrow> outcome) \<Rightarrow> 'st
    \<Rightarrow> 'st submit_result" where
  "WorldSeedTab_handleSubmit onDataGenerated isInitialized prompt generateWorldSeed st =
    (if \<not> isInitialized then refused st NotInitialized
     else if blank prompt then refused st MissingInput
     else
       let promptData = WorldSeedTab_promptData prompt in
       case generateWorldSeed promptData of
         Resolved result \<Rightarrow>
           \<lparr> store = call_back onDataGenerated [result] st, errorMessage = None,
             requests = [promptData] \<rparr>
       | Rejected msg \<Rightarrow>
           \<lparr> store = st,
             errorMessage = Some
               (if includes_str msg ''LLM provider not initialized'' then NotInitializedReported
                else GenerationFailed
                  (message_or msg ''An error occurred during world seed generation.'')),
             requests = [promptData] \<rparr>)"

subsection \<open>CultureTab\<close>

definition CultureTab_inputData :: "string \<Rightarrow> jsval" where
  "CultureTab_inputData societalStructure =
    JObj [(''societal_structure'', JStr societalStructure)]"

definition CultureTab_handleSubmit ::
  "(jsval list \<Rightarrow> 'st \<Rightarrow> 'st) option \<Rightarrow> bool \<Rightarrow> world_data \<Rightarrow> string
    \<Rightarrow> (jsval \<Rightarrow> outcome) \<Rightarrow> 'st \<Rightarrow> 'st submit_result" where
  "CultureTab_handleSubmit onDataGenerated isInitialized w societalStructure
      generateCulturalTapestry st =
    (if \<not> isInitialized then refused st NotInitialized
     else if \<not> CultureTab_worldSeedGenerated w then refused st PrerequisitesMissing
     else if blank societalStructure then refused st MissingInput
     else
       let inputData = CultureTab_inputData societalStructure in
       case generateCulturalTapestry inputData of
         Resolved result \<Rightarrow>
           \<lparr> store = call_back onDataGenerated [JStr ''culture'', result] st,
             errorMessage = None, requests = [inputData] \<rparr>
       | Rejected msg \<Rightarrow>
           \<lparr> store = st,
             errorMessage = Some (GenerationFailed
               (message_or msg ''An error occurred during cultural tapestry generation.'')),
             requests = [inputData] \<rparr>)"

subsection \<open>FactionsTab\<close>

definition FactionsTab_inputData :: "string \<Rightarrow> string \<Rightarrow> string \<Rightarrow> jsval" where
  "FactionsTab_inputData factionName factionType factionGoal =
    JObj [(''name'', JStr factionName), (''type'', JStr factionType),
      (''goal'', JStr factionGoal)]"

definition FactionsTab_handleSubmit ::
  "(jsval list \<Rightarrow> 'st \<Rightarrow> 'st) option \<Rightarrow> bool \<Rightarrow> world_data \<Rightarrow> string \<Rightarrow> string \<Rightarrow> string
    \<Rightarrow> (jsval \<Rightarrow> outcome) \<Rightarrow> 'st \<Rightarrow> 'st submit_result" where
  "FactionsTab_handleSubmit onDataGenerated isInitialized w factionName factionType
      factionGoal generateFaction st =
    (if \<not> isInitialized then refused st NotInitialized
     else if \<not> FactionsTab_prerequisitesMet w then refused st PrerequisitesMissing
     else if blank factionName \<or> blank factionGoal then refused st MissingInput
     else
       let inputData = FactionsTab_inputData factionName factionType factionGoal in
       case generateFaction inputData of
         Resolved result \<Rightarrow>
           \<lparr> store = call_back onDataGenerated [JStr ''factions'', result] st,
             errorMessage = None, requests = [inputData] \<rparr>
       | Rejected msg \<Rightarrow>
           \<lparr> store = st,
             errorMessage = Some (GenerationFailed
               (message_or msg ''An error occurred during faction generation.'')),
             requests = [inputData] \<rparr>)"

subsection \<open>CharactersTab\<close>

definition CharactersTab_inputData ::
  "string \<Rightarrow> string \<Rightarrow> string \<Rightarrow> string \<Rightarrow> string \<Rightarrow> jsval" where
  "CharactersTab_inputData characterName characterRole ethnicity entitySelection
      characterQuirk =
    JObj [(''name'', JStr characterName), (''role'', JStr characterRole),
      (''ethnicity'', JStr ethnicity), (''faction'', associated entitySelection),
      (''quirk'', if js_trim characterQuirk \<noteq> [] then JStr (js_trim characterQuirk) else JNull)]"

definition CharactersTab_handleSubmit ::
  "(jsval list \<Rightarrow> 'st \<Rightarrow> 'st) option \<Rightarrow> bool \<Rightarrow> world_data \<Rightarrow> string \<Rightarrow> string \<Rightarrow> string
    \<Rightarrow> string \<Rightarrow> string \<Rightarrow> (jsval \<Rightarrow> outcome) \<Rightarrow> 'st \<Rightarrow> 'st submit_result" where
  "CharactersTab_handleSubmit onDataGenerated isInitialized w characterName characterRole
      ethnicity entitySelection characterQuirk generateCharacter st =
    (if \<not> isInitialized then refused st NotInitialized
     else if \<not> CharactersTab_prerequisitesMet w then refused st PrerequisitesMissing
     else if blank characterName \<or> blank characterRole \<or> blank ethnicity
       then refused st MissingInput
     else
       let inputData = CharactersTab_inputData characterName characterRole ethnicity
             entitySelection characterQuirk in
       case generateCharacter inputData of
         Resolved result \<Rightarrow>
           \<lparr> store = call_back onDataGenerated [JStr ''characters'', result] st,
             errorMessage = None, requests = [inputData] \<rparr>
       | Rejected msg \<Rightarrow>
           \<lparr> store = st,
             errorMessage = Some (GenerationFailed
               (message_or msg ''An error occurred during character generation.'')),
             requests = [inputData] \<rparr>)"

subsection \<open>LocationsTab\<close>

definition LocationsTab_inputData ::
  "string \<Rightarrow> string \<Rightarrow> string \<Rightarrow> string \<Rightarrow> string \<Rightarrow> jsval" where
  "LocationsTab_inputData locationName locationType keyFeatures description entitySelection =
    JObj [(''name'', JStr locationName), (''type'', JStr locationType),
      (''features'', JStr keyFeatures), (''description'', JStr description),
      (''associated_entity'', associated entitySelection)]"

definition LocationsTab_handleSubmit ::
  "(jsval list \<Rightarrow> 'st \<Rightarrow> 'st) option \<Rightarrow> bool \<Rightarrow> world_data \<Rightarrow> string \<Rightarrow> string \<Rightarrow> string
    \<Rightarrow> string \<Rightarrow> string \<Rightarrow> (jsval \<Rightarrow> outcome) \<Rightarrow> 'st \<Rightarrow> 'st submit_result" where
  "LocationsTab_handleSubmit onDataGenerated isInitialized w locationName locationType
      keyFeatures description entitySelection generateLocation st =
    (if \<not> isInitialized then refused st NotInitialized
     else if \<not> LocationsTab_prerequisitesMet w then refused st PrerequisitesMissing
     else if blank locationName \<or> blank locationType \<or> blank keyFeatures \<or> blank description
       then refused st MissingInput
     else
       let inputData = LocationsTab_inputData locationName locationType keyFeatures
             description entitySelection in
       case generateLocation inputData of
         Resolved result \<Rightarrow>
           \<lparr> store = call_back onDataGenerated [JStr ''locations'', result] st,
             errorMessage = None, requests = [inputData] \<rparr>
       | Rejected msg \<Rightarrow>
           \<lparr> store = st,
             errorMessage = Some (GenerationFailed
               (message_or msg ''An error occurred during location generation.'')),
             requests = [inputData] \<rparr>)"

subsection \<open>ArtifactsTab\<close>

definition ArtifactsTab_inputData :: "string \<Rightarrow> string \<Rightarrow> string \<Rightarrow> string \<Rightarrow> jsval" where
  "ArtifactsTab_inputData artifactName artifactType properties entitySelection =
    JObj [(''name'', JStr artifactName), (''type'', JStr artifactType),
      (''properties'', JStr properties), (''associated_entity'', associated entitySelection)]"

definition ArtifactsTab_handleSubmit ::
  "(jsval list \<Rightarrow> 'st \<Rightarrow> 'st) option \<Rightarrow> bool \<Rightarrow> world_data \<Rightarrow> string \<Rightarrow> string \<Rightarrow> string
    \<Rightarrow> string \<Rightarrow> (jsval \<Rightarrow> outcome) \<Rightarrow> 'st \<Rightarrow> 'st submit_result" where
  "ArtifactsTab_handleSubmit onDataGenerated isInitialized w artifactName artifactType
      properties entitySelection generateArtifact st =
    (if \<not> isInitialized then refused st NotInitialized
     else if \<not> ArtifactsTab_prerequisitesMet w then refused st PrerequisitesMissing
     else if blank artifactName \<or> blank artifactType \<or> blank properties
       then refused st MissingInput
     else
       let inputData = ArtifactsTab_inputData artifactName artifactType properties
             entitySelection in
       case generateArtifact inputData of
         Resolved result \<Rightarrow>
           \<lparr> store = call_back onDataGenerated [JStr ''artifacts'', result] st,
             errorMessage = None, requests = [inputData] \<rparr>
       | Rejected msg \<Rightarrow>
           \<lparr> store = st,
             errorMessage = Some (GenerationFailed
               (message_or msg ''An error occurred during artifact generation.'')),
             requests = [inputData] \<rparr>)"

subsection \<open>EventsTab\<close>

definition EventsTab_inputData ::
  "string \<Rightarrow> string \<Rightarrow> string \<Rightarrow> string \<Rightarrow> string \<Rightarrow> jsval" where
  "EventsTab_inputData eventName eventType participants summary entitySelection =
    JObj [(''name'', JStr eventName), (''type'', JStr eventType),
      (''participants'', JStr participants), (''summary'', JStr summary),
      (''associated_entity'', associated entitySelection)]"

definition EventsTab_handleSubmit ::
  "(jsval list \<Rightarrow> 'st \<Rightarrow> 'st) option \<Rightarrow> bool \<Rightarrow> world_data \<Rightarrow> string \<Rightarrow> string \<Rightarrow> string
    \<Rightarrow> string \<Rightarrow> string \<Rightarrow> (jsval \<Rightarrow> outcome) \<Rightarrow> 'st \<Rightarrow> 'st submit_result" where
  "EventsTab_handleSubmit onDataGenerated isInitialized w eventName eventType participants
      summary entitySelection generateEvent st =
    (if \<not> isInitialized then refused st NotInitialized
     else if \<not> EventsTab_prerequisitesMet w then refused st PrerequisitesMissing
     else if blank eventName \<or> blank eventType \<or> blank participants \<or> blank summary
       then refused st MissingInput
     else
       let inputData = EventsTab_inputData eventName eventType participants summary
             entitySelection in
       case generateEvent inputData of
         Resolved result \<Rightarrow>
           \<lparr> store = call_back onDataGenerated [JStr ''events'', result] st,
             errorMessage = None, requests = [inputData] \<rparr>
       | Rejected msg \<Rightarrow>
           \<lparr> store = st,
             errorMessage = Some (GenerationFailed
               (message_or msg ''An error occurred during event generation.'')),
             requests = [inputData] \<rparr>)"

subsection \<open>SimulateTab\<close>

definition SimulateTab_inputData :: "string \<Rightarrow> string \<Rightarrow> string \<Rightarrow> string \<Rightarrow> jsval" where
  "SimulateTab_inputData entity1Selection entity2Selection interactionType settingSelection =
    JObj [(''entity1_name'', JStr entity1Selection), (''entity2_name'', JStr entity2Selection),
      (''interaction_type'', JStr interactionType), (''setting'', JStr settingSelection)]"

definition SimulateTab_handleSubmit ::
  "(jsval list \<Rightarrow> 'st \<Rightarrow> 'st) option \<Rightarrow> bool \<Rightarrow> world_data \<Rightarrow> string \<Rightarrow> string \<Rightarrow> string
    \<Rightarrow> string \<Rightarrow> (jsval \<Rightarrow> outcome) \<Rightarrow> 'st \<Rightarrow> 'st submit_result" where
  "SimulateTab_handleSubmit onDataGenerated isInitialized w entity1Selection
      entity2Selection interactionType settingSelection simulateInteraction st =
    (if \<not> isInitialized then refused st NotInitialized
     else if \<not> SimulateTab_prerequisitesMet w then refused st PrerequisitesMissing
     else if entity1Selection = ''None'' \<or> entity2Selection = ''None''
       then refused st SelectTwoEntities
     else if entity1Selection = entity2Selection then refused st SelectDifferentEntities
     else if blank interactionType \<or> blank settingSelection then refused st MissingInput
     else
       let inputData = SimulateTab_inputData entity1Selection entity2Selection
             interactionType settingSelection in
       case simulateInteraction inputData of
         Resolved result \<Rightarrow>
           \<lparr> store = call_back onDataGenerated [JStr ''interaction_result'', result] st,
             errorMessage = None, requests = [inputData] \<rparr>
       | Rejected msg \<Rightarrow>
           \<lparr> store = st,
             errorMessage = Some (GenerationFailed
               (message_or msg ''An error occurred during simulation.'')),
             requests = [inputData] \<rparr>)"

subsection \<open>ChatTab\<close>

text \<open>
  The chat view pushes the user's message before the call, and a message of its own in
  each of the three ways the call can end. \<open>t1\<close> and \<open>t2\<close> are the two readings of the
  clock, \<open>prevError\<close> the error line at the time of the submit (an empty message returns
  without touching it).
\<close>

definition chat_entry :: "string \<Rightarrow> jsval \<Rightarrow> string \<Rightarrow> jsval" where
  "chat_entry sender text_value timestamp =
    JObj [(''sender'', JStr sender), (''text'', text_value), (''timestamp'', JStr timestamp)]"

definition chat_error_entry :: "string \<Rightarrow> string \<Rightarrow> jsval" where
  "chat_error_entry msg timestamp =
    JObj [(''sender'', JStr ''ai''),
      (''text'', JStr (''Error: '' @ message_or msg ''An error occurred.'')),
      (''timestamp'', JStr timestamp), (''isError'', JBool True)]"

definition ChatTab_handleSubmit ::
  "(jsval list \<Rightarrow> 'st \<Rightarrow> 'st) option \<Rightarrow> bool \<Rightarrow> world_data \<Rightarrow> string \<Rightarrow> view_error option
    \<Rightarrow> string \<Rightarrow> string \<Rightarrow> (jsval \<Rightarrow> outcome) \<Rightarrow> 'st \<Rightarrow> 'st submit_result" where
  "ChatTab_handleSubmit onDataGenerated isInitialized w message prevError t1 t2
      sendChatMessage st =
    (if blank message then \<lparr> store = st, errorMessage = prevError, requests = [] \<rparr>
     else if \<not> isInitialized then refused st NotInitialized
     else if \<not> ChatTab_prerequisitesMet w then refused st PrerequisitesMissing
     else
       let userMessage = js_trim message;
           st1 = call_back onDataGenerated
                   [JStr ''chat_message'', chat_entry ''user'' (JStr userMessage) t1] st
       in
       case sendChatMessage (JStr userMessage) of
         Resolved result \<Rightarrow>
           if onDataGenerated \<noteq> None \<and> truthy (get_prop result ''response'') then
             \<lparr> store = call_back onDataGenerated
                  [JStr ''chat_message'', chat_entry ''ai'' (get_prop result ''response'') t2] st1,
               errorMessage = None, requests = [JStr userMessage] \<rparr>
           else if truthy result \<and> \<not> truthy (get_prop result ''response'') then
             \<lparr> store = call_back onDataGenerated
                  [JStr ''chat_message'',
                   chat_entry ''ai'' (JStr ''Sorry, I couldn't process that message.'') t2] st1,
               errorMessage = Some UnexpectedResponse, requests = [JStr userMessage] \<rparr>
           else \<lparr> store = st1, errorMessage = None, requests = [JStr userMessage] \<rparr>
       | Rejected msg \<Rightarrow>
           \<lparr> store = call_back onDataGenerated
                [JStr ''chat_message'', chat_error_entry msg t2] st1,
             errorMessage = Some (GenerationFailed (message_or msg ''An error occurred during chat.'')),
             requests = [JStr userMessage] \<rparr>)"

section \<open>Example data\<close>

text \<open>Payloads and stores for the concrete instances below.\<close>

definition red_hand_1 :: jsval where
  "red_hand_1 =
    JObj [(''Red Hand'', JObj [(''goal'', JStr ''war''), (''size'', JNum 3)]), (''Blue'', JNull)]"

definition red_hand_2 :: jsobject where
  "red_hand_2 = [(''Red Hand'', JObj [(''goal'', JStr ''revenge'')])]"

definition volcanic :: jsval where
  "volcanic = JObj [(''terrain'', JStr ''volcanic'')]"

definition interleaved_calls :: "(string \<times> jsval) list" where
  "interleaved_calls = [(''factions'', red_hand_1), (''chat_message'', JStr ''hello''),
     (''culture'', JNum 7), (''factions'', JObj red_hand_2), (''interaction_result'', JNull),
     (''characters'', JStr ''ab'')]"

text \<open>A store where the faction \<open>Aria\<close> and the character \<open>Aria\<close> share their name.\<close>

definition aria_state :: app_state where
  "aria_state = apply_merges [(''factions'', JObj [(''Borin'', JObj []), (''Aria'', JObj [])]),
     (''characters'', JObj [(''Aria'', JObj [])])] initial_state"

text \<open>
  A store, initialised with the provider \<open>mock\<close>, where the world seed and the culture are
  generated and one name, \<open>Aria\<close>, is a faction, a character and a location.
\<close>

definition honor :: jsval where
  "honor = JObj [(''values'', JStr ''honor'')]"

definition one_name_state :: app_state where
  "one_name_state = apply_merges [(''physical_world'', volcanic), (''culture'', honor),
     (''factions'', JObj [(''Aria'', JObj [])]), (''characters'', JObj [(''Aria'', JObj [])]),
     (''locations'', JObj [(''Aria'', JObj [])])] (handleLLMInitialized ''mock'' initial_state)"

text \<open>The same with a second name, the location \<open>Borin\<close>.\<close>

definition two_names_state :: app_state where
  "two_names_state = handleDataGenerated ''locations'' (JObj [(''Borin'', JObj [])]) one_name_state"

text \<open>A generation capability whose every call is rejected.\<close>

definition failing :: "jsval \<Rightarrow> outcome" where
  "failing request = Rejected ''boom''"

section \<open>Object spread\<close>

lemma map_of_assign_props: "map_of (assign_props t ps) = map_of t ++ map_of (rev ps)"
  unfolding assign_props_def
  by (induction ps arbitrary: t)
     (auto simp: update_conv' map_add_def fun_eq_iff split: option.splits)

lemma map_of_rev_distinct: "distinct (map fst ps) \<Longrightarrow> map_of (rev ps) = map_of ps"
proof (induction ps)
  case Nil
  then show ?case by simp
next
  case (Cons p ps)
  obtain k v where p: "p = (k, v)" by (cases p)
  from Cons.prems p have notin: "k \<notin> fst ` set ps" and d: "distinct (map fst ps)" by auto
  from notin have "map_of ps k = None" by (simp add: map_of_eq_None_iff)
  with Cons.IH [OF d] p show ?case
    by (auto simp: fun_eq_iff map_add_def split: option.splits)
qed

lemma wf_assign_props: "wf_object t \<Longrightarrow> wf_object (assign_props t ps)"
  unfolding assign_props_def wf_object_def
  by (induction ps arbitrary: t) (auto simp: distinct_update)

lemma wf_spread2: "wf_object (spread2 a b)"
  unfolding spread2_def by (intro wf_assign_props) (simp add: wf_object_def)

lemma map_of_spread2_objects:
  assumes "wf_object old" "wf_object r"
  shows "map_of (spread2 (JObj old) (JObj r)) = map_of old ++ map_of r"
  using assms unfolding spread2_def wf_object_def
  by (simp add: map_of_assign_props map_of_rev_distinct)

lemma keyed_section_update:
  "s \<in> set keyed_sections \<Longrightarrow>
   keyed_section s (updateWorldData s data w) = spread2 (JObj (keyed_section s w)) data"
  by (auto simp: keyed_sections_def keyed_section_def updateWorldData_def)

section \<open>Keyed sections are upserted\<close>

text \<open>
  Claim C1. For every keyed section \<open>s\<close> and every result mapping \<open>r\<close>, the keyed merge
  \<^verbatim>\<open>handleDataGenerated(s, r)\<close> leaves section \<open>s\<close> mapping every name of \<open>r\<close> to exactly
  the record \<open>r\<close> gives for it (the stored record is overwritten whole, not merged field by
  field) and every other name to what it held before. Objects are well formed: no key
  twice, which the merge preserves.
\<close>

theorem keyed_merge_upserts:
  assumes s: "s \<in> set keyed_sections"
    and r: "wf_object r"
    and old: "wf_object (keyed_section s (worldData st))"
  shows "(\<forall>(n, entity) \<in> set r.
            map_of (keyed_section s (worldData (handleDataGenerated s (JObj r) st))) n
              = Some entity)
       \<and> (\<forall>n. n \<notin> fst ` set r \<longrightarrow>
            map_of (keyed_section s (worldData (handleDataGenerated s (JObj r) st))) n
              = map_of (keyed_section s (worldData st)) n)
       \<and> wf_object (keyed_section s (worldData (handleDataGenerated s (JObj r) st)))"
proof -
  let ?new = "keyed_section s (worldData (handleDataGenerated s (JObj r) st))"
  have new: "?new = spread2 (JObj (keyed_section s (worldData st))) (JObj r)"
    using s by (simp add: handleDataGenerated_def keyed_section_update)
  have m: "map_of ?new = map_of (keyed_section s (worldData st)) ++ map_of r"
    unfolding new by (rule map_of_spread2_objects [OF old r])
  have "\<forall>(n, entity) \<in> set r. map_of ?new n = Some entity"
    using r unfolding m wf_object_def by (auto simp: map_add_def)
  moreover have "\<forall>n. n \<notin> fst ` set r \<longrightarrow>
      map_of ?new n = map_of (keyed_section s (worldData st)) n"
  proof (intro allI impI)
    fix n assume "n \<notin> fst ` set r"
    then have "map_of r n = None" by (simp add: map_of_eq_None_iff)
    then show "map_of ?new n = map_of (keyed_section s (worldData st)) n"
      unfolding m by (simp add: map_add_def)
  qed
  moreover have "wf_object ?new" unfolding new by (rule wf_spread2)
  ultimately show ?thesis by blast
qed

text \<open>
  The scenario of the specification: a second merge of \<open>Red Hand\<close> stores the second
  record alone, and \<open>Blue\<close>, which the second result does not name, is kept.
\<close>

theorem keyed_merge_upserts_witness:
  "''factions'' \<in> set keyed_sections \<and> wf_object red_hand_2
   \<and> wf_object (keyed_section ''factions''
        (worldData (handleDataGenerated ''factions'' red_hand_1 initial_state)))
   \<and> map_of (keyed_section ''factions''
        (worldData (handleDataGenerated ''factions'' (JObj red_hand_2)
          (handleDataGenerated ''factions'' red_hand_1 initial_state)))) ''Red Hand''
       = Some (JObj [(''goal'', JStr ''revenge'')])
   \<and> map_of (keyed_section ''factions''
        (worldData (handleDataGenerated ''factions'' (JObj red_hand_2)
          (handleDataGenerated ''factions'' red_hand_1 initial_state)))) ''Blue''
       = Some JNull"
proof -
  let ?st = "handleDataGenerated ''factions'' red_hand_1 initial_state"
  have s: "''factions'' \<in> set keyed_sections" by (simp add: keyed_sections_def)
  have r: "wf_object red_hand_2" by (simp add: wf_object_def red_hand_2_def)
  have old: "wf_object (keyed_section ''factions'' (worldData ?st))"
    by (simp add: handleDataGenerated_def updateWorldData_def keyed_section_def wf_spread2)
  have oldv: "map_of (keyed_section ''factions'' (worldData ?st)) ''Blue'' = Some JNull"
    by (simp add: handleDataGenerated_def updateWorldData_def keyed_section_def spread2_def
        assign_props_def red_hand_1_def initial_state_def initial_worldData_def)
  from keyed_merge_upserts [OF s r old] oldv s r old show ?thesis
    by (simp add: red_hand_2_def)
qed

section \<open>Singleton sections are replaced\<close>

text \<open>
  Claim C2. For both singleton sections and all payloads \<open>X\<close> and \<open>Y\<close>, merging \<open>X\<close> and
  then \<open>Y\<close> leaves the section equal to \<open>Y\<close>: nothing of \<open>X\<close> survives.
\<close>

theorem singleton_merge_replaces:
  "physical_world (worldData (handleDataGenerated ''physical_world'' Y
       (handleDataGenerated ''physical_world'' X st))) = Y
   \<and> culture (worldData (handleDataGenerated ''culture'' Y
       (handleDataGenerated ''culture'' X st))) = Y"
  by (simp add: handleDataGenerated_def updateWorldData_def)

section \<open>The two histories\<close>

text \<open>
  Claim C5. Two interaction results \<open>a\<close>, then \<open>b\<close>, are each put in front, so the
  interactions read \<open>[b, a]\<close> followed by what was there before; two chat messages
  \<open>a\<close>, then \<open>b\<close>, are each put at the end, so the chat history reads what was there
  before followed by \<open>[a, b]\<close>. From the empty store the results are \<open>[b, a]\<close> and
  \<open>[a, b]\<close>.
\<close>

theorem history_order:
  "interactions (worldData (handleDataGenerated ''interaction_result'' b
      (handleDataGenerated ''interaction_result'' a st))) = b # a # interactions (worldData st)
   \<and> chat_history (worldData (handleDataGenerated ''chat_message'' b
      (handleDataGenerated ''chat_message'' a st))) = chat_history (worldData st) @ [a, b]
   \<and> interactions (worldData (handleDataGenerated ''interaction_result'' b
      (handleDataGenerated ''interaction_result'' a initial_state))) = [b, a]
   \<and> chat_history (worldData (handleDataGenerated ''chat_message'' b
      (handleDataGenerated ''chat_message'' a initial_state))) = [a, b]"
  by (simp add: handleDataGenerated_def updateWorldData_def initial_state_def
      initial_worldData_def)

section \<open>A merge touches one section\<close>

lemma updateWorldData_other:
  "dataType \<notin> set dataTypes \<Longrightarrow> updateWorldData dataType data w = w"
  by (simp add: dataTypes_def updateWorldData_def)

lemma get_section_frame_known:
  "dataType \<in> set dataTypes \<Longrightarrow> target_section dataType \<noteq> Some name \<Longrightarrow>
   get_section name (updateWorldData dataType data w) = get_section name w"
  unfolding dataTypes_def
  apply (simp only: set_simps insert_iff empty_iff)
  apply (elim disjE)
  apply (simp_all add: target_section_def singleton_sections_def keyed_sections_def
      updateWorldData_def get_section_def)
  done

lemma get_section_frame:
  assumes that: "target_section dataType \<noteq> Some name"
  shows "get_section name (updateWorldData dataType data w) = get_section name w"
proof (cases "dataType \<in> set dataTypes")
  case True
  then show ?thesis using that by (rule get_section_frame_known)
next
  case False
  then show ?thesis using updateWorldData_other [of dataType data w] by simp
qed

lemma target_section_cases:
  assumes "target_section dataType = Some name"
  shows "(dataType, name) \<in> set [(''physical_world'', ''physical_world''), (''culture'', ''culture''),
     (''factions'', ''factions''), (''characters'', ''characters''), (''locations'', ''locations''),
     (''artifacts'', ''artifacts''), (''events'', ''events''),
     (''interaction_result'', ''interactions''), (''chat_message'', ''chat_history'')]"
  using assms unfolding target_section_def singleton_sections_def keyed_sections_def
  by (auto split: if_splits)

lemma get_section_cong_target:
  assumes "target_section dataType = Some name"
    and "get_section name w = get_section name w'"
  shows "get_section name (updateWorldData dataType data w)
     = get_section name (updateWorldData dataType data w')"
  using target_section_cases [OF assms(1)] assms(2)
  apply (simp only: set_simps insert_iff empty_iff prod.inject)
  apply (elim disjE conjE)
  apply (simp_all add: updateWorldData_def get_section_def)
  done

lemma get_section_cong:
  assumes that: "get_section name w = get_section name w'"
  shows "get_section name (updateWorldData dataType data w)
     = get_section name (updateWorldData dataType data w')"
proof (cases "target_section dataType = Some name")
  case True
  then show ?thesis using that by (rule get_section_cong_target)
next
  case False
  then show ?thesis using that get_section_frame [of dataType name data w]
      get_section_frame [of dataType name data w'] by simp
qed


lemma apply_merges_Nil: "apply_merges [] st = st"
  by (simp add: apply_merges_def)

lemma apply_merges_Cons:
  "apply_merges ((dataType, data) # calls) st
     = apply_merges calls (handleDataGenerated dataType data st)"
  by (simp add: apply_merges_def)

lemma worldData_handleDataGenerated:
  "worldData (handleDataGenerated dataType data st)
     = updateWorldData dataType data (worldData st)"
  by (simp add: handleDataGenerated_def)

lemma own_calls_suffice:
  "get_section name (worldData st) = get_section name (worldData st') \<Longrightarrow>
   get_section name (worldData (apply_merges calls st))
     = get_section name (worldData (apply_merges (calls_for name calls) st'))"
proof (induction calls arbitrary: st st')
  case Nil
  then show ?case by (simp add: calls_for_def apply_merges_Nil)
next
  case (Cons c calls)
  obtain dataType data where c: "c = (dataType, data)" by (cases c)
  show ?case
  proof (cases "target_section dataType = Some name")
    case True
    have step: "get_section name (worldData (handleDataGenerated dataType data st))
        = get_section name (worldData (handleDataGenerated dataType data st'))"
      unfolding worldData_handleDataGenerated by (rule get_section_cong [OF Cons.prems])
    from True have "calls_for name (c # calls) = (dataType, data) # calls_for name calls"
      by (simp add: calls_for_def c)
    then show ?thesis using Cons.IH [OF step] by (simp add: c apply_merges_Cons)
  next
    case False
    have step: "get_section name (worldData (handleDataGenerated dataType data st))
        = get_section name (worldData st')"
      unfolding worldData_handleDataGenerated using get_section_frame [OF False] Cons.prems
      by simp
    from False have "calls_for name (c # calls) = calls_for name calls"
      by (simp add: calls_for_def c)
    then show ?thesis using Cons.IH [OF step] by (simp add: c apply_merges_Cons)
  qed
qed

lemma capability_apply_merges:
  "isLLMInitialized (apply_merges calls st) = isLLMInitialized st
   \<and> initializedProviderKey (apply_merges calls st) = initializedProviderKey st"
proof (induction calls arbitrary: st)
  case Nil
  show ?case by (simp add: apply_merges_Nil)
next
  case (Cons c calls)
  obtain dataType data where c: "c = (dataType, data)" by (cases c)
  have "isLLMInitialized (handleDataGenerated dataType data st) = isLLMInitialized st"
    "initializedProviderKey (handleDataGenerated dataType data st) = initializedProviderKey st"
    by (simp_all add: handleDataGenerated_def)
  with Cons.IH [of "handleDataGenerated dataType data st"] show ?case
    by (simp add: c apply_merges_Cons)
qed

text \<open>
  Claim C6. A merge of any payload, well formed or not, under any \<open>dataType\<close> leaves
  the capability state and every section other than its target as they were. Hence after
  any run of merges each section holds what the calls aimed at it alone would have left.
\<close>

theorem merge_frame:
  "isLLMInitialized (handleDataGenerated dataType data st) = isLLMInitialized st
   \<and> initializedProviderKey (handleDataGenerated dataType data st) = initializedProviderKey st
   \<and> (\<forall>name. target_section dataType \<noteq> Some name \<longrightarrow>
         get_section name (worldData (handleDataGenerated dataType data st))
           = get_section name (worldData st))
   \<and> (\<forall>name. get_section name (worldData (apply_merges calls st))
         = get_section name (worldData (apply_merges (calls_for name calls) st)))
   \<and> isLLMInitialized (apply_merges calls st) = isLLMInitialized st
   \<and> initializedProviderKey (apply_merges calls st) = initializedProviderKey st"
proof -
  have "\<forall>name. target_section dataType \<noteq> Some name \<longrightarrow>
         get_section name (worldData (handleDataGenerated dataType data st))
           = get_section name (worldData st)"
    unfolding worldData_handleDataGenerated using get_section_frame by blast
  moreover have "\<forall>name. get_section name (worldData (apply_merges calls st))
         = get_section name (worldData (apply_merges (calls_for name calls) st))"
    using own_calls_suffice [OF refl] by blast
  moreover have "isLLMInitialized (handleDataGenerated dataType data st) = isLLMInitialized st"
    "initializedProviderKey (handleDataGenerated dataType data st) = initializedProviderKey st"
    by (simp_all add: handleDataGenerated_def)
  ultimately show ?thesis using capability_apply_merges [of calls st] by blast
qed

theorem merge_frame_witness:
  "target_section ''characters'' \<noteq> Some ''factions''
   \<and> get_section ''factions'' (worldData (handleDataGenerated ''characters'' (JStr ''ab'')
        (handleDataGenerated ''factions'' red_hand_1 initial_state)))
     = get_section ''factions'' (worldData (handleDataGenerated ''factions'' red_hand_1 initial_state))
   \<and> get_section ''factions'' (worldData (apply_merges interleaved_calls initial_state))
     = get_section ''factions'' (worldData (apply_merges
         [(''factions'', red_hand_1), (''factions'', JObj red_hand_2)] initial_state))
   \<and> isLLMInitialized (apply_merges interleaved_calls (handleLLMInitialized ''mock'' initial_state))
   \<and> initializedProviderKey (apply_merges interleaved_calls (handleLLMInitialized ''mock'' initial_state)) = ''mock''"
proof -
  have t: "target_section ''characters'' \<noteq> Some ''factions''"
    by (simp add: target_section_def singleton_sections_def keyed_sections_def)
  have c: "calls_for ''factions'' interleaved_calls
      = [(''factions'', red_hand_1), (''factions'', JObj red_hand_2)]"
    by (simp add: calls_for_def interleaved_calls_def target_section_def
        singleton_sections_def keyed_sections_def)
  have i: "isLLMInitialized (handleLLMInitialized ''mock'' initial_state)"
    "initializedProviderKey (handleLLMInitialized ''mock'' initial_state) = ''mock''"
    by (simp_all add: handleLLMInitialized_def)
  from merge_frame [of "''characters''" "JStr ''ab''"
      "handleDataGenerated ''factions'' red_hand_1 initial_state" interleaved_calls]
    merge_frame [of "''characters''" "JStr ''ab''" initial_state interleaved_calls]
    merge_frame [of "''characters''" "JStr ''ab''" "handleLLMInitialized ''mock'' initial_state" interleaved_calls]
    t c i
  show ?thesis by simp
qed

section \<open>Reachable stores hold well-formed objects\<close>

text \<open>
  The keyed sections of every store reached from the initial one by merges, of any
  payloads, have no key twice: the hypothesis of the upsert theorem on the stored section
  holds wherever the application can be.
\<close>

lemma get_section_keyed:
  "s \<in> set keyed_sections \<Longrightarrow> get_section s w = JObj (keyed_section s w)"
  unfolding keyed_sections_def
  apply (simp only: set_simps insert_iff empty_iff)
  apply (elim disjE)
  apply (simp_all add: get_section_def keyed_section_def)
  done

lemma wf_keyed_step:
  assumes s: "s \<in> set keyed_sections" and wf: "wf_object (keyed_section s w)"
  shows "wf_object (keyed_section s (updateWorldData dataType data w))"
proof (cases "dataType = s")
  case True
  then show ?thesis using keyed_section_update [OF s] by (simp add: wf_spread2)
next
  case False
  from s have "target_section dataType \<noteq> Some s"
    unfolding target_section_def keyed_sections_def using False
    by (simp only: set_simps insert_iff empty_iff) (elim disjE; simp)
  from get_section_frame [OF this, of data w] wf show ?thesis
    by (simp add: get_section_keyed [OF s])
qed

lemma wf_keyed_run:
  assumes s: "s \<in> set keyed_sections"
  shows "wf_object (keyed_section s (worldData st)) \<Longrightarrow>
    wf_object (keyed_section s (worldData (apply_merges calls st)))"
proof (induction calls arbitrary: st)
  case Nil
  then show ?case by (simp add: apply_merges_Nil)
next
  case (Cons c calls)
  obtain dataType data where c: "c = (dataType, data)" by (cases c)
  have "wf_object (keyed_section s (worldData (handleDataGenerated dataType data st)))"
    unfolding worldData_handleDataGenerated by (rule wf_keyed_step [OF s Cons.prems])
  from Cons.IH [OF this] show ?case by (simp add: c apply_merges_Cons)
qed

lemma wf_keyed_reachable:
  "s \<in> set keyed_sections \<Longrightarrow>
   wf_object (keyed_section s (worldData (apply_merges calls initial_state)))"
  by (rule wf_keyed_run)
     (simp_all add: keyed_section_def initial_state_def initial_worldData_def wf_object_def)

section \<open>Empty and populated sections\<close>

lemma update_not_Nil: "AList.update k v al \<noteq> []"
  by (cases al) auto

lemma assign_props_Nil_iff: "assign_props t ps = [] \<longleftrightarrow> t = [] \<and> ps = []"
proof (induction ps arbitrary: t)
  case Nil
  show ?case by (simp add: assign_props_def)
next
  case (Cons p ps)
  obtain k v where p: "p = (k, v)" by (cases p)
  have "assign_props t (p # ps) = assign_props (AList.update k v t) ps"
    by (simp add: assign_props_def p)
  then show ?case using Cons.IH [of "AList.update k v t"] update_not_Nil [of k v t] by simp
qed

lemma spread2_Nil_iff: "spread2 a b = [] \<longleftrightarrow> own_props a = [] \<and> own_props b = []"
  by (simp add: spread2_def assign_props_Nil_iff)

lemma generated_JObj: "generated (JObj ps) = (ps \<noteq> [])"
  by (simp add: generated_def)

lemma generated_JArr: "generated (JArr xs) = (xs \<noteq> [])"
  by (simp add: generated_def)

lemma generated_own_props: "generated x \<Longrightarrow> own_props x \<noteq> []"
  by (cases x) (auto simp: generated_def)

lemma section_populated_eq: "section_populated name w = generated (get_section name w)"
  by (simp add: section_populated_def get_section_def generated_JArr)

lemma keyed_merge_populated:
  assumes "name \<in> set keyed_sections"
  shows "section_populated name (updateWorldData name data w)
     = (section_populated name w \<or> own_props data \<noteq> [])"
  using assms unfolding keyed_sections_def
  apply (simp only: set_simps insert_iff empty_iff)
  apply (elim disjE)
  apply (simp_all add: section_populated_def get_section_def updateWorldData_def
      generated_JObj spread2_Nil_iff)
  done

lemma singleton_merge_populated:
  assumes "name \<in> set singleton_sections"
  shows "section_populated name (updateWorldData name data w) = generated data"
  using assms unfolding singleton_sections_def
  apply (simp only: set_simps insert_iff empty_iff)
  apply (elim disjE)
  apply (simp_all add: section_populated_def get_section_def updateWorldData_def)
  done

lemma populated_step:
  assumes name: "name \<in> set keyed_sections \<union> set ordered_sections"
    and pop: "section_populated name w"
  shows "section_populated name (updateWorldData dataType data w)"
proof (cases "target_section dataType = Some name")
  case False
  then show ?thesis using pop get_section_frame [of dataType name data w]
    by (simp add: section_populated_eq)
next
  case True
  show ?thesis
    using target_section_cases [OF True] name pop
    apply (simp only: set_simps insert_iff empty_iff prod.inject)
    apply (elim disjE conjE)
    apply (simp_all add: keyed_sections_def ordered_sections_def keyed_merge_populated)
    apply (simp_all add: section_populated_def updateWorldData_def)
    done
qed

lemma populated_run:
  assumes name: "name \<in> set keyed_sections \<union> set ordered_sections"
  shows "section_populated name (worldData st) \<Longrightarrow>
    section_populated name (worldData (apply_merges calls st))"
proof (induction calls arbitrary: st)
  case Nil
  then show ?case by (simp add: apply_merges_Nil)
next
  case (Cons c calls)
  obtain dataType data where c: "c = (dataType, data)" by (cases c)
  have "section_populated name (worldData (handleDataGenerated dataType data st))"
    unfolding worldData_handleDataGenerated by (rule populated_step [OF name Cons.prems])
  from Cons.IH [OF this] show ?case by (simp add: c apply_merges_Cons)
qed

text \<open>
  Claim C7, as the code has it. A keyed or ordered section that holds something still
  holds something after any run of merges. A prepend or an append leaves its history
  populated. A keyed merge leaves its section populated exactly when the section was
  populated or the result has a property. A singleton merge leaves its section populated
  exactly when the result is non-empty: a singleton section is replaced whole, so an
  empty result empties it.
\<close>

theorem populated_sections:
  "(name \<in> set keyed_sections \<union> set ordered_sections \<and> section_populated name (worldData st)
      \<longrightarrow> section_populated name (worldData (apply_merges calls st)))
   \<and> section_populated ''interactions''
        (worldData (handleDataGenerated ''interaction_result'' data st))
   \<and> section_populated ''chat_history'' (worldData (handleDataGenerated ''chat_message'' data st))
   \<and> (name \<in> set keyed_sections \<longrightarrow>
        section_populated name (worldData (handleDataGenerated name data st))
          = (section_populated name (worldData st) \<or> own_props data \<noteq> []))
   \<and> (name \<in> set singleton_sections \<longrightarrow>
        section_populated name (worldData (handleDataGenerated name data st)) = generated data)"
proof -
  have "section_populated ''interactions''
        (worldData (handleDataGenerated ''interaction_result'' data st))"
    "section_populated ''chat_history'' (worldData (handleDataGenerated ''chat_message'' data st))"
    by (simp_all add: section_populated_def handleDataGenerated_def updateWorldData_def)
  then show ?thesis
    using populated_run [of name st calls] keyed_merge_populated [of name data "worldData st"]
      singleton_merge_populated [of name data "worldData st"]
    unfolding worldData_handleDataGenerated by blast
qed

theorem populated_sections_witness:
  "''factions'' \<in> set keyed_sections \<union> set ordered_sections
   \<and> ''culture'' \<in> set singleton_sections
   \<and> section_populated ''factions'' (worldData (handleDataGenerated ''factions'' red_hand_1 initial_state))
   \<and> section_populated ''factions'' (worldData (apply_merges [(''factions'', JObj []), (''culture'', JObj [])]
        (handleDataGenerated ''factions'' red_hand_1 initial_state)))
   \<and> \<not> section_populated ''factions'' (worldData (handleDataGenerated ''factions'' (JObj []) initial_state))
   \<and> section_populated ''culture'' (worldData (handleDataGenerated ''culture'' volcanic initial_state))
   \<and> \<not> section_populated ''culture'' (worldData (handleDataGenerated ''culture'' (JObj [])
        (handleDataGenerated ''culture'' volcanic initial_state)))"
proof -
  let ?st = "handleDataGenerated ''factions'' red_hand_1 initial_state"
  have k: "''factions'' \<in> set keyed_sections" by (simp add: keyed_sections_def)
  have s: "''culture'' \<in> set singleton_sections" by (simp add: singleton_sections_def)
  have p: "section_populated ''factions'' (worldData ?st)"
    by (simp add: section_populated_def get_section_def handleDataGenerated_def
        updateWorldData_def generated_def spread2_Nil_iff red_hand_1_def)
  have e: "\<not> section_populated ''factions'' (worldData initial_state)"
    by (simp add: section_populated_def get_section_def initial_state_def initial_worldData_def
        generated_def)
  have g: "generated volcanic" "\<not> generated (JObj [])"
    by (simp_all add: generated_def volcanic_def)
  from populated_sections [of "''factions''" ?st "[(''factions'', JObj []), (''culture'', JObj [])]" "JObj []"]
    populated_sections [of "''factions''" initial_state "[]" "JObj []"]
    populated_sections [of "''culture''" initial_state "[]" volcanic]
    populated_sections [of "''culture''" "handleDataGenerated ''culture'' volcanic initial_state" "[]" "JObj []"]
    k s p e g
  show ?thesis by simp
qed

text \<open>
  The claim as stated fails for the singleton sections: the world seed, once generated,
  is empty again after a merge of the empty mapping, and the world model is then the
  initial one.
\<close>

theorem populated_regress_counterexample:
  "section_populated ''physical_world''
     (worldData (handleDataGenerated ''physical_world'' volcanic initial_state))
   \<and> \<not> section_populated ''physical_world''
     (worldData (handleDataGenerated ''physical_world'' (JObj [])
        (handleDataGenerated ''physical_world'' volcanic initial_state)))
   \<and> worldData (handleDataGenerated ''physical_world'' (JObj [])
        (handleDataGenerated ''physical_world'' volcanic initial_state))
       = worldData initial_state"
  by (simp add: section_populated_def get_section_def handleDataGenerated_def
      updateWorldData_def generated_def volcanic_def initial_state_def initial_worldData_def)

section \<open>The name index\<close>

lemma mset_insert_by: "mset (insert_by cmp x xs) = add_mset x (mset xs)"
  by (induction xs) auto

lemma mset_js_sort: "mset (js_sort cmp xs) = mset xs"
  unfolding js_sort_def by (induction xs) (auto simp: mset_insert_by)

lemma set_insert_by: "set (insert_by cmp x xs) = insert x (set xs)"
  by (induction xs) auto

lemma sorted_insert_by:
  assumes c: "consistent_comparator cmp"
    and s: "sorted_wrt (\<lambda>a b. cmp a b \<le> 0) xs"
  shows "sorted_wrt (\<lambda>a b. cmp a b \<le> 0) (insert_by cmp x xs)"
  using s
proof (induction xs)
  case Nil
  show ?case by simp
next
  case (Cons y ys)
  from c have total: "\<And>a b. \<not> cmp a b \<le> 0 \<Longrightarrow> cmp b a \<le> 0"
    unfolding consistent_comparator_def by (metis not_less order_less_imp_le)
  from c have trans: "\<And>a b c. cmp a b \<le> 0 \<Longrightarrow> cmp b c \<le> 0 \<Longrightarrow> cmp a c \<le> 0"
    unfolding consistent_comparator_def by blast
  show ?case
  proof (cases "cmp x y \<le> 0")
    case True
    with Cons.prems trans show ?thesis by auto
  next
    case False
    from Cons.prems have "sorted_wrt (\<lambda>a b. cmp a b \<le> 0) ys" by simp
    from Cons.IH [OF this] Cons.prems False total [OF False] show ?thesis
      by (auto simp: set_insert_by)
  qed
qed

lemma sorted_js_sort:
  "consistent_comparator cmp \<Longrightarrow> sorted_wrt (\<lambda>a b. cmp a b \<le> 0) (js_sort cmp xs)"
  unfolding js_sort_def by (induction xs) (auto intro: sorted_insert_by)

lemma code_compare_antisym: "(code_compare a b < 0) = (0 < code_compare b a)"
  by (induction a b rule: code_compare.induct) auto

lemma code_compare_trans:
  "code_compare a b \<le> 0 \<Longrightarrow> code_compare b c \<le> 0 \<Longrightarrow> code_compare a c \<le> 0"
proof (induction a arbitrary: b c)
  case Nil
  then show ?case by (cases c) auto
next
  case (Cons x xs)
  from Cons.prems(1) obtain y ys where b: "b = y # ys" by (cases b) auto
  from Cons.prems(2) b obtain z zs where c: "c = z # zs" by (cases c) auto
  from Cons.prems b c Cons.IH [of ys zs] show ?case
    by (auto split: if_splits)
qed

lemma consistent_code_compare: "consistent_comparator code_compare"
  unfolding consistent_comparator_def
  using code_compare_antisym code_compare_trans by blast

text \<open>
  Claim C4, as the code has it. The entity options of a view are the sentinel
  \<^verbatim>\<open>'None'\<close> followed by the sorted names; the sorted names are the keys of factions,
  characters, locations, artifacts and events taken together with their multiplicities
  (nothing removes a duplicate), so their set is the union of the keys; and they are in
  the order of the comparator whenever the comparator is consistent.
\<close>

theorem name_index:
  "entityOptions cmp w = ''None'' # sortedNames cmp w
   \<and> mset (sortedNames cmp w)
       = mset (map fst (factions w)) + mset (map fst (characters w))
         + mset (map fst (locations w)) + mset (map fst (artifacts w))
         + mset (map fst (events w))
   \<and> set (sortedNames cmp w)
       = fst ` set (factions w) \<union> fst ` set (characters w) \<union> fst ` set (locations w)
         \<union> fst ` set (artifacts w) \<union> fst ` set (events w)
   \<and> (consistent_comparator cmp \<longrightarrow>
        sorted_wrt (\<lambda>a b. cmp a b \<le> 0) (sortedNames cmp w))"
proof -
  have m: "mset (sortedNames cmp w) = mset (names w)"
    by (simp add: sortedNames_def mset_js_sort)
  have "set (sortedNames cmp w) = set (names w)"
    using m by (rule mset_eq_setD)
  then have "set (sortedNames cmp w)
       = fst ` set (factions w) \<union> fst ` set (characters w) \<union> fst ` set (locations w)
         \<union> fst ` set (artifacts w) \<union> fst ` set (events w)"
    by (simp add: names_def Un_assoc)
  moreover have "mset (sortedNames cmp w)
       = mset (map fst (factions w)) + mset (map fst (characters w))
         + mset (map fst (locations w)) + mset (map fst (artifacts w))
         + mset (map fst (events w))"
    unfolding m by (simp add: names_def)
  ultimately show ?thesis
    by (simp add: entityOptions_def sortedNames_def sorted_js_sort)
qed

theorem name_index_witness:
  "consistent_comparator code_compare
   \<and> sorted_wrt (\<lambda>a b. code_compare a b \<le> 0) (sortedNames code_compare (worldData aria_state))
   \<and> mset (sortedNames code_compare (worldData aria_state)) = {#''Aria'', ''Aria'', ''Borin''#}"
proof -
  have "map fst (factions (worldData aria_state)) = [''Borin'', ''Aria'']"
    "map fst (characters (worldData aria_state)) = [''Aria'']"
    "locations (worldData aria_state) = []" "artifacts (worldData aria_state) = []"
    "events (worldData aria_state) = []"
    by (simp_all add: aria_state_def
      apply_merges_def handleDataGenerated_def updateWorldData_def initial_state_def
      initial_worldData_def spread2_def assign_props_def)
  with name_index [of code_compare "worldData aria_state"] consistent_code_compare
  show ?thesis by simp
qed

lemma aria_options:
  "entityOptions code_compare (worldData aria_state) = [''None'', ''Aria'', ''Aria'', ''Borin'']"
  by (simp add: entityOptions_def sortedNames_def names_def js_sort_def aria_state_def
      apply_merges_def handleDataGenerated_def updateWorldData_def initial_state_def
      initial_worldData_def spread2_def assign_props_def)

text \<open>
  The claim as stated fails on deduplication: a name that is a key of two sections is
  listed twice.
\<close>

theorem name_index_duplicates_counterexample:
  "entityOptions code_compare (worldData aria_state) = [''None'', ''Aria'', ''Aria'', ''Borin'']
   \<and> \<not> distinct (entityOptions code_compare (worldData aria_state))"
  by (simp add: aria_options)

section \<open>Readiness for interactions\<close>

lemma one_name_world:
  "worldData one_name_state = \<lparr> physical_world = volcanic, culture = honor,
     factions = [(''Aria'', JObj [])], characters = [(''Aria'', JObj [])],
     locations = [(''Aria'', JObj [])], artifacts = [], events = [],
     interactions = [], chat_history = [] \<rparr>"
  by (simp add: one_name_state_def apply_merges_def handleDataGenerated_def updateWorldData_def
      handleLLMInitialized_def initial_state_def initial_worldData_def spread2_def
      assign_props_def)

lemma two_names_world:
  "worldData two_names_state = \<lparr> physical_world = volcanic, culture = honor,
     factions = [(''Aria'', JObj [])], characters = [(''Aria'', JObj [])],
     locations = [(''Aria'', JObj []), (''Borin'', JObj [])], artifacts = [], events = [],
     interactions = [], chat_history = [] \<rparr>"
  by (simp add: two_names_state_def handleDataGenerated_def updateWorldData_def one_name_world
      spread2_def assign_props_def)

lemma generated_examples: "generated volcanic" "generated honor"
  by (simp_all add: generated_def volcanic_def honor_def)

lemma set_sortedNames: "set (sortedNames cmp w) = set (names w)"
  by (simp add: sortedNames_def mset_js_sort [THEN mset_eq_setD])

lemma reset_selection_listed:
  "reset_selection cmp w s \<noteq> ''None'' \<Longrightarrow> reset_selection cmp w s \<in> set (names w)"
  by (auto simp: reset_selection_def set_sortedNames split: if_splits)

lemma SimulateTab_requests:
  "(requests (SimulateTab_handleSubmit cb ini w e1 e2 ty setting api st) \<noteq> [])
     = (ini \<and> SimulateTab_prerequisitesMet w \<and> e1 \<noteq> ''None'' \<and> e2 \<noteq> ''None'' \<and> e1 \<noteq> e2
        \<and> \<not> blank ty \<and> \<not> blank setting)"
  by (simp add: SimulateTab_handleSubmit_def refused_def Let_def split: outcome.splits)

text \<open>
  Claim C8, as the code has it. The readiness predicate of the simulation view holds
  exactly when the world seed, the culture, the factions, the characters and the
  locations are all populated; it does not look at the names. The submit handler sends a
  request exactly when, besides, the provider is initialised, both selections differ from
  \<^verbatim>\<open>'None'\<close> and from each other, and the interaction type and setting are not blank.
  For selections that have passed the effect of the entity options, a request therefore
  implies at least two distinct names in the name index.
\<close>

theorem simulate_gate:
  "SimulateTab_prerequisitesMet w
     = (section_populated ''physical_world'' w \<and> section_populated ''culture'' w
        \<and> section_populated ''factions'' w \<and> section_populated ''characters'' w
        \<and> section_populated ''locations'' w)
   \<and> (requests (SimulateTab_handleSubmit cb ini w e1 e2 ty setting api st) \<noteq> [])
     = (ini \<and> SimulateTab_prerequisitesMet w \<and> e1 \<noteq> ''None'' \<and> e2 \<noteq> ''None'' \<and> e1 \<noteq> e2
        \<and> \<not> blank ty \<and> \<not> blank setting)
   \<and> (requests (SimulateTab_handleSubmit cb ini w (reset_selection cmp w s1)
          (reset_selection cmp w s2) ty setting api st) \<noteq> []
        \<longrightarrow> 2 \<le> card (set (names w)))"
proof -
  have a: "SimulateTab_prerequisitesMet w
     = (section_populated ''physical_world'' w \<and> section_populated ''culture'' w
        \<and> section_populated ''factions'' w \<and> section_populated ''characters'' w
        \<and> section_populated ''locations'' w)"
    by (simp add: SimulateTab_prerequisitesMet_def section_populated_def get_section_def)
  have c: "2 \<le> card (set (names w))"
    if "requests (SimulateTab_handleSubmit cb ini w (reset_selection cmp w s1)
          (reset_selection cmp w s2) ty setting api st) \<noteq> []"
  proof -
    let ?e1 = "reset_selection cmp w s1" and ?e2 = "reset_selection cmp w s2"
    from that have v: "?e1 \<noteq> ''None'' \<and> ?e2 \<noteq> ''None'' \<and> ?e1 \<noteq> ?e2"
      unfolding SimulateTab_requests by simp
    from v have "?e1 \<in> set (names w)" "?e2 \<in> set (names w)"
      by (simp_all add: reset_selection_listed)
    then have sub: "{?e1, ?e2} \<subseteq> set (names w)" by simp
    from v have "card {?e1, ?e2} = 2" by simp
    then show ?thesis using card_mono [OF _ sub] by simp
  qed
  show ?thesis
    by (intro conjI impI) (rule a, rule SimulateTab_requests, erule c)
qed

theorem simulate_gate_witness:
  "requests (SimulateTab_handleSubmit (AppLayout_onDataGenerated ''interaction_result'')
      (isLLMInitialized two_names_state) (worldData two_names_state)
      (reset_selection code_compare (worldData two_names_state) ''Aria'')
      (reset_selection code_compare (worldData two_names_state) ''Borin'')
      ''Trade/Exchange'' ''City'' failing two_names_state) \<noteq> []
   \<and> 2 \<le> card (set (names (worldData two_names_state)))
   \<and> requests (SimulateTab_handleSubmit (AppLayout_onDataGenerated ''interaction_result'')
      (isLLMInitialized one_name_state) (worldData one_name_state)
      (reset_selection code_compare (worldData one_name_state) ''Aria'')
      (reset_selection code_compare (worldData one_name_state) ''Borin'')
      ''Trade/Exchange'' ''City'' failing one_name_state) = []"
proof -
  have n: "names (worldData two_names_state) = [''Aria'', ''Aria'', ''Aria'', ''Borin'']"
    "names (worldData one_name_state) = [''Aria'', ''Aria'', ''Aria'']"
    by (simp_all add: names_def two_names_world one_name_world)
  have r: "reset_selection code_compare (worldData two_names_state) ''Aria'' = ''Aria''"
    "reset_selection code_compare (worldData two_names_state) ''Borin'' = ''Borin''"
    "reset_selection code_compare (worldData one_name_state) ''Borin'' = ''None''"
    by (simp_all add: reset_selection_def set_sortedNames n)
  have p: "SimulateTab_prerequisitesMet (worldData two_names_state)"
    by (simp add: SimulateTab_prerequisitesMet_def two_names_world generated_examples
        generated_JObj)
  have i: "isLLMInitialized two_names_state"
    by (simp add: two_names_state_def one_name_state_def handleDataGenerated_def
        capability_apply_merges handleLLMInitialized_def)
  have b: "\<not> blank ''Trade/Exchange''" "\<not> blank ''City''"
    by (simp_all add: blank_def js_trim_def is_space_def)
  let ?w = "worldData two_names_state"
  from simulate_gate [of ?w "AppLayout_onDataGenerated ''interaction_result''"
      "isLLMInitialized two_names_state"
      "reset_selection code_compare ?w ''Aria''" "reset_selection code_compare ?w ''Borin''"
      "''Trade/Exchange''" "''City''" failing two_names_state code_compare "''Aria''" "''Borin''"]
    simulate_gate [of "worldData one_name_state" "AppLayout_onDataGenerated ''interaction_result''"
      "isLLMInitialized one_name_state"
      "reset_selection code_compare (worldData one_name_state) ''Aria''"
      "reset_selection code_compare (worldData one_name_state) ''Borin''"
      "''Trade/Exchange''" "''City''" failing one_name_state code_compare "''Aria''" "''Borin''"]
    r p i b
  show ?thesis by simp
qed

text \<open>
  The claim as stated fails for the predicate: with one name shared by a faction, a
  character and a location, the predicate holds although only one distinct name exists.
\<close>

theorem simulate_one_name_counterexample:
  "SimulateTab_prerequisitesMet (worldData one_name_state)
   \<and> card (set (names (worldData one_name_state))) = 1"
  by (simp add: SimulateTab_prerequisitesMet_def one_name_world generated_examples
      generated_JObj names_def)

section \<open>Readiness for the culture\<close>

lemma CultureTab_requests:
  "(requests (CultureTab_handleSubmit cb ini w societalStructure api st) \<noteq> [])
     = (ini \<and> CultureTab_worldSeedGenerated w \<and> \<not> blank societalStructure)"
  by (simp add: CultureTab_handleSubmit_def refused_def Let_def split: outcome.splits)

text \<open>
  Claim C9. The culture view's readiness check is false on the empty world model and,
  for a world seed that is a mapping \<open>m\<close>, true exactly when \<open>m\<close> is not empty, at once
  after the merge. It reads the world model alone: initialising the provider, or any
  value of \<^verbatim>\<open>isLLMInitialized\<close>, leaves it as it is. The submit handler tests the
  capability and the readiness separately and sends a request exactly when both hold
  and the input is not blank.
\<close>

theorem culture_readiness:
  "\<not> CultureTab_worldSeedGenerated (worldData initial_state)
   \<and> CultureTab_worldSeedGenerated (w\<lparr>physical_world := JObj m\<rparr>) = (m \<noteq> [])
   \<and> CultureTab_worldSeedGenerated
        (worldData (handleDataGenerated ''physical_world'' (JObj m) st)) = (m \<noteq> [])
   \<and> CultureTab_worldSeedGenerated (worldData (handleLLMInitialized providerKey st))
        = CultureTab_worldSeedGenerated (worldData st)
   \<and> CultureTab_worldSeedGenerated (worldData (st\<lparr>isLLMInitialized := b\<rparr>))
        = CultureTab_worldSeedGenerated (worldData st)
   \<and> (requests (CultureTab_handleSubmit cb ini w societalStructure api st) \<noteq> [])
        = (ini \<and> CultureTab_worldSeedGenerated w \<and> \<not> blank societalStructure)"
  by (simp add: CultureTab_requests CultureTab_worldSeedGenerated_def generated_JObj
      initial_state_def initial_worldData_def handleDataGenerated_def updateWorldData_def
      handleLLMInitialized_def)

section \<open>The associated entity of a request\<close>

lemma get_prop_associated:
  "get_prop (CharactersTab_inputData n r e sel q) ''faction'' = associated sel"
  "get_prop (LocationsTab_inputData n ty f d sel) ''associated_entity'' = associated sel"
  "get_prop (ArtifactsTab_inputData n ty p sel) ''associated_entity'' = associated sel"
  "get_prop (EventsTab_inputData n ty p s sel) ''associated_entity'' = associated sel"
  by (simp_all add: CharactersTab_inputData_def LocationsTab_inputData_def
      ArtifactsTab_inputData_def EventsTab_inputData_def)

lemma associated_null: "(associated sel = JNull) = (sel = ''None'')"
  "associated sel \<noteq> JStr ''None''"
  by (simp_all add: associated_def)

lemma handler_requests:
  "requests (CharactersTab_handleSubmit cb ini w n r e sel q api st)
     \<in> {[], [CharactersTab_inputData n r e sel q]}"
  "requests (LocationsTab_handleSubmit cb ini w n ty f d sel api st)
     \<in> {[], [LocationsTab_inputData n ty f d sel]}"
  "requests (ArtifactsTab_handleSubmit cb ini w n ty p sel api st)
     \<in> {[], [ArtifactsTab_inputData n ty p sel]}"
  "requests (EventsTab_handleSubmit cb ini w n ty p s sel api st)
     \<in> {[], [EventsTab_inputData n ty p s sel]}"
  by (simp_all add: CharactersTab_handleSubmit_def LocationsTab_handleSubmit_def
      ArtifactsTab_handleSubmit_def EventsTab_handleSubmit_def refused_def Let_def
      split: outcome.splits)

text \<open>
  Claim C10. The four views with an associated-entity selector (characters, locations,
  artifacts, events) send no request or the one built from their inputs, and in that
  request the associated-entity field (\<^verbatim>\<open>faction\<close> for characters) is \<^verbatim>\<open>null\<close> exactly
  when the selection is the string \<^verbatim>\<open>'None'\<close>. The field is therefore never the string
  \<^verbatim>\<open>'None'\<close>: an entity so named cannot be sent as the associated entity.
\<close>

theorem associated_entity_sentinel:
  "requests (CharactersTab_handleSubmit cb ini w n r e sel q api st)
     \<in> {[], [CharactersTab_inputData n r e sel q]}
   \<and> requests (LocationsTab_handleSubmit cb ini w n ty f d sel api st)
     \<in> {[], [LocationsTab_inputData n ty f d sel]}
   \<and> requests (ArtifactsTab_handleSubmit cb ini w n ty p sel api st)
     \<in> {[], [ArtifactsTab_inputData n ty p sel]}
   \<and> requests (EventsTab_handleSubmit cb ini w n ty p s sel api st)
     \<in> {[], [EventsTab_inputData n ty p s sel]}
   \<and> (get_prop (CharactersTab_inputData n r e sel q) ''faction'' = JNull) = (sel = ''None'')
   \<and> (get_prop (LocationsTab_inputData n ty f d sel) ''associated_entity'' = JNull)
        = (sel = ''None'')
   \<and> (get_prop (ArtifactsTab_inputData n ty p sel) ''associated_entity'' = JNull)
        = (sel = ''None'')
   \<and> (get_prop (EventsTab_inputData n ty p s sel) ''associated_entity'' = JNull)
        = (sel = ''None'')
   \<and> get_prop (CharactersTab_inputData n r e sel q) ''faction'' \<noteq> JStr ''None''
   \<and> get_prop (LocationsTab_inputData n ty f d sel) ''associated_entity'' \<noteq> JStr ''None''
   \<and> get_prop (ArtifactsTab_inputData n ty p sel) ''associated_entity'' \<noteq> JStr ''None''
   \<and> get_prop (EventsTab_inputData n ty p s sel) ''associated_entity'' \<noteq> JStr ''None''"
  by (simp only: handler_requests get_prop_associated associated_null simp_thms)

section \<open>A generation that fails\<close>

lemma WorldSeedTab_rejected:
  "generateWorldSeed (WorldSeedTab_promptData prompt) = Rejected msg \<Longrightarrow>
   store (WorldSeedTab_handleSubmit cb ini prompt generateWorldSeed st) = st
   \<and> errorMessage (WorldSeedTab_handleSubmit cb ini prompt generateWorldSeed st) \<noteq> None"
  by (simp add: WorldSeedTab_handleSubmit_def refused_def Let_def)

lemma CultureTab_rejected:
  "api (CultureTab_inputData s) = Rejected msg \<Longrightarrow>
   store (CultureTab_handleSubmit cb ini w s api st) = st
   \<and> errorMessage (CultureTab_handleSubmit cb ini w s api st) \<noteq> None"
  by (simp add: CultureTab_handleSubmit_def refused_def Let_def)

lemma FactionsTab_rejected:
  "api (FactionsTab_inputData n ty g) = Rejected msg \<Longrightarrow>
   store (FactionsTab_handleSubmit cb ini w n ty g api st) = st
   \<and> errorMessage (FactionsTab_handleSubmit cb ini w n ty g api st) \<noteq> None"
  by (simp add: FactionsTab_handleSubmit_def refused_def Let_def)

lemma CharactersTab_rejected:
  "api (CharactersTab_inputData n r e sel q) = Rejected msg \<Longrightarrow>
   store (CharactersTab_handleSubmit cb ini w n r e sel q api st) = st
   \<and> errorMessage (CharactersTab_handleSubmit cb ini w n r e sel q api st) \<noteq> None"
  by (simp add: CharactersTab_handleSubmit_def refused_def Let_def)

lemma LocationsTab_rejected:
  "api (LocationsTab_inputData n ty f d sel) = Rejected msg \<Longrightarrow>
   store (LocationsTab_handleSubmit cb ini w n ty f d sel api st) = st
   \<and> errorMessage (LocationsTab_handleSubmit cb ini w n ty f d sel api st) \<noteq> None"
  by (simp add: LocationsTab_handleSubmit_def refused_def Let_def)

lemma ArtifactsTab_rejected:
  "api (ArtifactsTab_inputData n ty p sel) = Rejected msg \<Longrightarrow>
   store (ArtifactsTab_handleSubmit cb ini w n ty p sel api st) = st
   \<and> errorMessage (ArtifactsTab_handleSubmit cb ini w n ty p sel api st) \<noteq> None"
  by (simp add: ArtifactsTab_handleSubmit_def refused_def Let_def)

lemma EventsTab_rejected:
  "api (EventsTab_inputData n ty p s sel) = Rejected msg \<Longrightarrow>
   store (EventsTab_handleSubmit cb ini w n ty p s sel api st) = st
   \<and> errorMessage (EventsTab_handleSubmit cb ini w n ty p s sel api st) \<noteq> None"
  by (simp add: EventsTab_handleSubmit_def refused_def Let_def)

lemma SimulateTab_rejected:
  "api (SimulateTab_inputData e1 e2 ty setting) = Rejected msg \<Longrightarrow>
   store (SimulateTab_handleSubmit cb ini w e1 e2 ty setting api st) = st
   \<and> errorMessage (SimulateTab_handleSubmit cb ini w e1 e2 ty setting api st) \<noteq> None"
  by (simp add: SimulateTab_handleSubmit_def refused_def Let_def)

lemma ChatTab_rejected:
  assumes "sendChatMessage (JStr (js_trim message)) = Rejected msg"
    and "\<not> blank message" and "ini" and "ChatTab_prerequisitesMet w"
  shows "ChatTab_handleSubmit cb ini w message prevError t1 t2 sendChatMessage st =
    \<lparr> store = call_back cb [JStr ''chat_message'', chat_error_entry msg t2]
        (call_back cb [JStr ''chat_message'', chat_entry ''user'' (JStr (js_trim message)) t1] st),
      errorMessage = Some (GenerationFailed (message_or msg ''An error occurred during chat.'')),
      requests = [JStr (js_trim message)] \<rparr>"
  using assms by (simp add: ChatTab_handleSubmit_def Let_def)

lemma wired_chat_twice:
  "call_back (AppLayout_onDataGenerated ''chat_message'') [JStr ''chat_message'', y]
     (call_back (AppLayout_onDataGenerated ''chat_message'') [JStr ''chat_message'', x] s)
   = s\<lparr>worldData := (worldData s)\<lparr>chat_history :=
         chat_history (worldData s) @ [JStr ''chat_message'', JStr ''chat_message'']\<rparr>,
       layoutError := []\<rparr>"
  by (simp add: call_back_def AppLayout_onDataGenerated_def arg0_def handleDataGenerated_def
      updateWorldData_def)

lemma two_names_initialized: "isLLMInitialized two_names_state"
  by (simp add: two_names_state_def one_name_state_def handleDataGenerated_def
      capability_apply_merges handleLLMInitialized_def)

lemma two_names_facts:
  "ChatTab_prerequisitesMet (worldData two_names_state)"
  "SimulateTab_prerequisitesMet (worldData two_names_state)"
  "chat_history (worldData two_names_state) = []"
  by (simp_all add: two_names_world ChatTab_prerequisitesMet_def SimulateTab_prerequisitesMet_def
      generated_examples generated_JObj)

lemma not_blank_examples:
  "\<not> blank ''hello''" "js_trim ''hello'' = ''hello''" "\<not> blank ''Trade/Exchange''"
  "\<not> blank ''City''"
  by (simp_all add: blank_def js_trim_def is_space_def)

text \<open>
  Claim C3, as the code has it. In every view but the chat, a generation whose call is
  rejected leaves the store as it was, whatever the callback, and sets the view's error
  line. The chat view calls the store twice around a rejected call: with the user's
  message before the call and with an error message in its \<^verbatim>\<open>catch\<close>. As AppLayout
  wires the callback, which reads the first argument of each call, the chat history
  grows by two entries, both the string \<^verbatim>\<open>'chat_message'\<close>; every other section and
  the capability state stay as they were.
\<close>

theorem failed_generation:
  "(generateWorldSeed (WorldSeedTab_promptData prompt) = Rejected msg \<longrightarrow>
      store (WorldSeedTab_handleSubmit cb ini prompt generateWorldSeed st) = st
      \<and> errorMessage (WorldSeedTab_handleSubmit cb ini prompt generateWorldSeed st) \<noteq> None)
   \<and> (generateCulturalTapestry (CultureTab_inputData societalStructure) = Rejected msg \<longrightarrow>
      store (CultureTab_handleSubmit cb ini w societalStructure generateCulturalTapestry st) = st
      \<and> errorMessage (CultureTab_handleSubmit cb ini w societalStructure
            generateCulturalTapestry st) \<noteq> None)
   \<and> (generateFaction (FactionsTab_inputData factionName factionType factionGoal)
        = Rejected msg \<longrightarrow>
      store (FactionsTab_handleSubmit cb ini w factionName factionType factionGoal
            generateFaction st) = st
      \<and> errorMessage (FactionsTab_handleSubmit cb ini w factionName factionType factionGoal
            generateFaction st) \<noteq> None)
   \<and> (generateCharacter (CharactersTab_inputData characterName characterRole ethnicity
          entitySelection characterQuirk) = Rejected msg \<longrightarrow>
      store (CharactersTab_handleSubmit cb ini w characterName characterRole ethnicity
            entitySelection characterQuirk generateCharacter st) = st
      \<and> errorMessage (CharactersTab_handleSubmit cb ini w characterName characterRole ethnicity
            entitySelection characterQuirk generateCharacter st) \<noteq> None)
   \<and> (generateLocation (LocationsTab_inputData locationName locationType keyFeatures
          description entitySelection) = Rejected msg \<longrightarrow>
      store (LocationsTab_handleSubmit cb ini w locationName locationType keyFeatures
            description entitySelection generateLocation st) = st
      \<and> errorMessage (LocationsTab_handleSubmit cb ini w locationName locationType keyFeatures
            description entitySelection generateLocation st) \<noteq> None)
   \<and> (generateArtifact (ArtifactsTab_inputData artifactName artifactType properties
          entitySelection) = Rejected msg \<longrightarrow>
      store (ArtifactsTab_handleSubmit cb ini w artifactName artifactType properties
            entitySelection generateArtifact st) = st
      \<and> errorMessage (ArtifactsTab_handleSubmit cb ini w artifactName artifactType properties
            entitySelection generateArtifact st) \<noteq> None)
   \<and> (generateEvent (EventsTab_inputData eventName eventType participants summary
          entitySelection) = Rejected msg \<longrightarrow>
      store (EventsTab_handleSubmit cb ini w eventName eventType participants summary
            entitySelection generateEvent st) = st
      \<and> errorMessage (EventsTab_handleSubmit cb ini w eventName eventType participants summary
            entitySelection generateEvent st) \<noteq> None)
   \<and> (simulateInteraction (SimulateTab_inputData entity1Selection entity2Selection
          interactionType settingSelection) = Rejected msg \<longrightarrow>
      store (SimulateTab_handleSubmit cb ini w entity1Selection entity2Selection
            interactionType settingSelection simulateInteraction st) = st
      \<and> errorMessage (SimulateTab_handleSubmit cb ini w entity1Selection entity2Selection
            interactionType settingSelection simulateInteraction st) \<noteq> None)
   \<and> (sendChatMessage (JStr (js_trim message)) = Rejected msg \<and> \<not> blank message \<and> ini
        \<and> ChatTab_prerequisitesMet w \<longrightarrow>
      store (ChatTab_handleSubmit (Some f) ini w message prevError t1 t2 sendChatMessage st)
        = f [JStr ''chat_message'', chat_error_entry msg t2]
            (f [JStr ''chat_message'', chat_entry ''user'' (JStr (js_trim message)) t1] st)
      \<and> store (ChatTab_handleSubmit (AppLayout_onDataGenerated ''chat_message'') ini w message
            prevError t1 t2 sendChatMessage s)
        = s\<lparr>worldData := (worldData s)\<lparr>chat_history :=
              chat_history (worldData s) @ [JStr ''chat_message'', JStr ''chat_message'']\<rparr>,
            layoutError := []\<rparr>
      \<and> errorMessage (ChatTab_handleSubmit (AppLayout_onDataGenerated ''chat_message'') ini w
            message prevError t1 t2 sendChatMessage s) \<noteq> None)"
proof (intro conjI impI; (elim conjE)?)
  show "store (ChatTab_handleSubmit (Some f) ini w message prevError t1 t2 sendChatMessage st)
        = f [JStr ''chat_message'', chat_error_entry msg t2]
            (f [JStr ''chat_message'', chat_entry ''user'' (JStr (js_trim message)) t1] st)"
    if "sendChatMessage (JStr (js_trim message)) = Rejected msg" "\<not> blank message" "ini"
      "ChatTab_prerequisitesMet w"
    by (simp add: ChatTab_rejected [where sendChatMessage = sendChatMessage and message = message, OF that] call_back_def)
  show "store (ChatTab_handleSubmit (AppLayout_onDataGenerated ''chat_message'') ini w message
            prevError t1 t2 sendChatMessage s)
        = s\<lparr>worldData := (worldData s)\<lparr>chat_history :=
              chat_history (worldData s) @ [JStr ''chat_message'', JStr ''chat_message'']\<rparr>,
            layoutError := []\<rparr>"
    if "sendChatMessage (JStr (js_trim message)) = Rejected msg" "\<not> blank message" "ini"
      "ChatTab_prerequisitesMet w"
    by (simp add: ChatTab_rejected [where sendChatMessage = sendChatMessage and message = message, OF that] wired_chat_twice)
  show "errorMessage (ChatTab_handleSubmit (AppLayout_onDataGenerated ''chat_message'') ini w
            message prevError t1 t2 sendChatMessage s) \<noteq> None"
    if "sendChatMessage (JStr (js_trim message)) = Rejected msg" "\<not> blank message" "ini"
      "ChatTab_prerequisitesMet w"
    by (simp add: ChatTab_rejected [where sendChatMessage = sendChatMessage and message = message, OF that])
qed (simp_all add: WorldSeedTab_rejected CultureTab_rejected FactionsTab_rejected
    CharactersTab_rejected LocationsTab_rejected ArtifactsTab_rejected EventsTab_rejected
    SimulateTab_rejected)


theorem failed_generation_witness:
  "failing (SimulateTab_inputData ''Aria'' ''Borin'' ''Trade/Exchange'' ''City'') = Rejected ''boom''
   \<and> requests (SimulateTab_handleSubmit (AppLayout_onDataGenerated ''interaction_result'') True
        (worldData two_names_state) ''Aria'' ''Borin'' ''Trade/Exchange'' ''City'' failing
        two_names_state) = [SimulateTab_inputData ''Aria'' ''Borin'' ''Trade/Exchange'' ''City'']
   \<and> store (SimulateTab_handleSubmit (AppLayout_onDataGenerated ''interaction_result'') True
        (worldData two_names_state) ''Aria'' ''Borin'' ''Trade/Exchange'' ''City'' failing
        two_names_state) = two_names_state
   \<and> failing (JStr (js_trim ''hello'')) = Rejected ''boom'' \<and> \<not> blank ''hello''
   \<and> ChatTab_prerequisitesMet (worldData two_names_state)
   \<and> chat_history (worldData (store (ChatTab_handleSubmit
        (AppLayout_onDataGenerated ''chat_message'') True (worldData two_names_state) ''hello''
        None ''12:00'' ''12:01'' failing two_names_state)))
       = [JStr ''chat_message'', JStr ''chat_message'']
   \<and> factions (worldData (store (ChatTab_handleSubmit
        (AppLayout_onDataGenerated ''chat_message'') True (worldData two_names_state) ''hello''
        None ''12:00'' ''12:01'' failing two_names_state)))
       = factions (worldData two_names_state)"
proof -
  note T = failed_generation [where generateWorldSeed = failing
      and generateCulturalTapestry = failing and generateFaction = failing
      and generateCharacter = failing and generateLocation = failing
      and generateArtifact = failing and generateEvent = failing
      and simulateInteraction = failing and sendChatMessage = failing
      and msg = "''boom''" and ini = True and w = "worldData two_names_state"
      and cb = "AppLayout_onDataGenerated ''interaction_result''"
      and st = two_names_state and s = two_names_state and message = "''hello''"
      and entity1Selection = "''Aria''" and entity2Selection = "''Borin''"
      and interactionType = "''Trade/Exchange''" and settingSelection = "''City''"
      and prevError = None and ?t1.0 = "''12:00''" and ?t2.0 = "''12:01''"]
  have f: "\<And>request. failing request = Rejected ''boom''" by (simp add: failing_def)
  have sim: "store (SimulateTab_handleSubmit (AppLayout_onDataGenerated ''interaction_result'') True
        (worldData two_names_state) ''Aria'' ''Borin'' ''Trade/Exchange'' ''City'' failing
        two_names_state) = two_names_state"
    using T by (simp only: f simp_thms)
  have chat: "store (ChatTab_handleSubmit (AppLayout_onDataGenerated ''chat_message'') True
        (worldData two_names_state) ''hello'' None ''12:00'' ''12:01'' failing two_names_state)
      = two_names_state\<lparr>worldData := (worldData two_names_state)\<lparr>chat_history :=
              chat_history (worldData two_names_state)
                @ [JStr ''chat_message'', JStr ''chat_message'']\<rparr>,
            layoutError := []\<rparr>"
    using T by (simp only: f simp_thms not_blank_examples two_names_facts)
  have req: "requests (SimulateTab_handleSubmit (AppLayout_onDataGenerated ''interaction_result'')
        True (worldData two_names_state) ''Aria'' ''Borin'' ''Trade/Exchange'' ''City'' failing
        two_names_state) = [SimulateTab_inputData ''Aria'' ''Borin'' ''Trade/Exchange'' ''City'']"
    by (simp add: SimulateTab_handleSubmit_def refused_def f two_names_facts not_blank_examples)
  show ?thesis
    unfolding sim chat req
    by (simp add: f not_blank_examples two_names_facts)
qed

text \<open>
  The claim as stated fails for the chat: after a rejected call the chat history, empty
  before, has two entries.
\<close>

theorem failed_chat_counterexample:
  "failing (JStr (js_trim ''hello'')) = Rejected ''boom''
   \<and> chat_history (worldData two_names_state) = []
   \<and> length (chat_history (worldData (store (ChatTab_handleSubmit
        (AppLayout_onDataGenerated ''chat_message'') (isLLMInitialized two_names_state)
        (worldData two_names_state) ''hello'' None ''12:00'' ''12:01'' failing
        two_names_state)))) = 2"
proof -
  have f: "failing (JStr (js_trim ''hello'')) = Rejected ''boom''" by (simp add: failing_def)
  show ?thesis
    by (simp add: ChatTab_rejected [where sendChatMessage = failing and message = "''hello''"
          and ini = True, OF f not_blank_examples(1) TrueI two_names_facts(1)]
        wired_chat_twice f two_names_facts two_names_initialized)
qed

end
